theory Spec2Isabelle
  imports Complex_Main
begin

section \<open>Numeric model\<close>

text \<open>
  The repository computes with IEEE double-precision numbers through NumPy.  This
  development reads every \<^verbatim>\<open>float\<close> as a real number: rounding, signed zeros,
  infinities and NaN are outside the model.  All statements below are statements about
  the formulas the code evaluates, in exact arithmetic.  Where an outcome is discrete
  and turns on rounding (the number of samples that \<^verbatim>\<open>np.arange\<close> produces), the
  statements leave it open.
\<close>

section \<open>\<^verbatim>\<open>description.py\<close>: the parameter table\<close>

text \<open>
  \<^verbatim>\<open>CarParameters\<close> is a dataclass whose attributes are read from the class
  itself (\<^verbatim>\<open>CarParameters.l_r\<close>), never from an instance, so each one is a constant.
\<close>

definition CarParameters_length :: real where
  "CarParameters_length = 4.97"

definition CarParameters_width :: real where
  "CarParameters_width = 1.964"

definition CarParameters_tire_diameter :: real where
  "CarParameters_tire_diameter = 0.4826"

definition CarParameters_tire_width :: real where
  "CarParameters_tire_width = 0.265"

definition CarParameters_axle_track :: real where
  "CarParameters_axle_track = 1.7"

definition CarParameters_wheelbase :: real where
  "CarParameters_wheelbase = 2.96"

definition CarParameters_rear_overhang :: real where
  "CarParameters_rear_overhang = 0.5 * (CarParameters_length - CarParameters_wheelbase)"

definition CarParameters_l_frac :: real where
  \<comment> \<open>the attribute \<^verbatim>\<open>l_\<close>; an identifier cannot end in an underscore here\<close>
  "CarParameters_l_frac = 0.5"

definition CarParameters_l_r :: real where
  "CarParameters_l_r = CarParameters_l_frac * CarParameters_wheelbase"

definition CarParameters_l_f :: real where
  "CarParameters_l_f = CarParameters_l_frac * CarParameters_wheelbase"

section \<open>Exceptions and the array store\<close>

datatype error = ValueError string | TypeError string | IndexError string

text \<open>
  NumPy arrays are mutable objects and the code updates some of them in place
  (\<^verbatim>\<open>a[:, 1] *= -1\<close>, \<^verbatim>\<open>point[0, :] += self.x\<close>, \<^verbatim>\<open>w += center\<close>).
  So arrays live in a store: a reference names a buffer, \<^verbatim>\<open>.copy()\<close>,
  \<^verbatim>\<open>np.array\<close>, \<^verbatim>\<open>@\<close> and \<^verbatim>\<open>.dot\<close> allocate a fresh buffer, \<^verbatim>\<open>.T\<close> is a
  view on the same buffer, and an in-place operator writes through the reference it is
  applied to.  Two-dimensional arrays are lists of rows; one-dimensional arrays are lists.
  A buffer that is never freed stays in the store.
\<close>

record heap =
  mats :: "nat \<Rightarrow> real list list"
  vecs :: "nat \<Rightarrow> real list"
  next_free :: nat

record mref =
  base :: nat
  transposed :: bool

type_synonym vref = nat

type_synonym 'a py = "heap \<Rightarrow> error + ('a \<times> heap)"

definition py_return :: "'a \<Rightarrow> 'a py" where
  "py_return a = (\<lambda>h. Inr (a, h))"

definition py_raise :: "error \<Rightarrow> 'a py" where
  "py_raise e = (\<lambda>h. Inl e)"

definition py_bind :: "'a py \<Rightarrow> ('a \<Rightarrow> 'b py) \<Rightarrow> 'b py" where
  "py_bind m f = (\<lambda>h. case m h of Inl e \<Rightarrow> Inl e | Inr (a, h') \<Rightarrow> f a h')"

definition new_mat :: "real list list \<Rightarrow> mref py" where
  "new_mat m = (\<lambda>h. Inr (\<lparr>base = next_free h, transposed = False\<rparr>,
     h\<lparr>mats := (mats h)(next_free h := m), next_free := Suc (next_free h)\<rparr>))"

definition new_vec :: "real list \<Rightarrow> vref py" where
  "new_vec v = (\<lambda>h. Inr (next_free h,
     h\<lparr>vecs := (vecs h)(next_free h := v), next_free := Suc (next_free h)\<rparr>))"

definition deref :: "heap \<Rightarrow> mref \<Rightarrow> real list list" where
  \<comment> \<open>the array seen through a reference: the buffer, or its transpose for a
      \<^verbatim>\<open>.T\<close> view\<close>
  "deref h r = (if transposed r then transpose (mats h (base r)) else mats h (base r))"

definition read_mat :: "mref \<Rightarrow> real list list py" where
  "read_mat r = (\<lambda>h. Inr (deref h r, h))"

definition write_mat :: "mref \<Rightarrow> real list list \<Rightarrow> unit py" where
  "write_mat r m = (\<lambda>h. Inr ((),
     h\<lparr>mats := (mats h)(base r := (if transposed r then transpose m else m))\<rparr>))"

definition read_vec :: "vref \<Rightarrow> real list py" where
  "read_vec r = (\<lambda>h. Inr (vecs h r, h))"

subsection \<open>The NumPy operations the code uses\<close>

definition np_array :: "real list list \<Rightarrow> mref py" where
  "np_array rows = new_mat rows"

definition np_copy :: "mref \<Rightarrow> mref py" where
  "np_copy r = py_bind (read_mat r) new_mat"

definition np_T :: "mref \<Rightarrow> mref" where
  "np_T r = r\<lparr>transposed := \<not> transposed r\<rparr>"

definition getitem_row :: "mref \<Rightarrow> nat \<Rightarrow> real list py" where
  \<comment> \<open>\<^verbatim>\<open>a[i]\<close>\<close>
  "getitem_row r i = py_bind (read_mat r) (\<lambda>m.
     if i < length m then py_return (m ! i)
     else py_raise (IndexError ''index out of bounds''))"

definition getitem2 :: "mref \<Rightarrow> nat \<Rightarrow> nat \<Rightarrow> real py" where
  \<comment> \<open>\<^verbatim>\<open>a[i][j]\<close>\<close>
  "getitem2 r i j = py_bind (getitem_row r i) (\<lambda>row.
     if j < length row then py_return (row ! j)
     else py_raise (IndexError ''index out of bounds''))"

definition np_concatenate :: "real list list \<Rightarrow> real list list \<Rightarrow> mref py" where
  \<comment> \<open>\<^verbatim>\<open>np.concatenate([a, b])\<close> along axis 0: the column counts must agree\<close>
  "np_concatenate a b =
     (if list_all (\<lambda>row. list_all (\<lambda>row'. length row = length row') b) a
      then new_mat (a @ b)
      else py_raise (ValueError ''all the input array dimensions except for the concatenation axis must match exactly''))"

definition imul_col :: "mref \<Rightarrow> nat \<Rightarrow> real \<Rightarrow> unit py" where
  \<comment> \<open>\<^verbatim>\<open>a[:, j] *= c\<close>\<close>
  "imul_col r j c = py_bind (read_mat r) (\<lambda>m.
     if list_all (\<lambda>row. j < length row) m
     then write_mat r (map (\<lambda>row. row[j := row ! j * c]) m)
     else py_raise (IndexError ''index out of bounds''))"

definition iadd_col :: "mref \<Rightarrow> nat \<Rightarrow> real \<Rightarrow> unit py" where
  \<comment> \<open>\<^verbatim>\<open>a[:, j] += c\<close>\<close>
  "iadd_col r j c = py_bind (read_mat r) (\<lambda>m.
     if list_all (\<lambda>row. j < length row) m
     then write_mat r (map (\<lambda>row. row[j := row ! j + c]) m)
     else py_raise (IndexError ''index out of bounds''))"

definition iadd_row :: "mref \<Rightarrow> nat \<Rightarrow> real \<Rightarrow> unit py" where
  \<comment> \<open>\<^verbatim>\<open>a[i, :] += c\<close>\<close>
  "iadd_row r i c = py_bind (read_mat r) (\<lambda>m.
     if i < length m
     then write_mat r (m[i := map (\<lambda>v. v + c) (m ! i)])
     else py_raise (IndexError ''index out of bounds''))"

definition np_sub_vec :: "mref \<Rightarrow> vref \<Rightarrow> mref py" where
  \<comment> \<open>\<^verbatim>\<open>a - v\<close> for a two-dimensional \<^verbatim>\<open>a\<close> and a one-dimensional \<^verbatim>\<open>v\<close>, which
      is broadcast over the rows\<close>
  "np_sub_vec r v = py_bind (read_mat r) (\<lambda>m. py_bind (read_vec v) (\<lambda>c.
     if list_all (\<lambda>row. length row = length c) m
     then new_mat (map (\<lambda>row. map2 (-) row c) m)
     else if length c = 1
     then new_mat (map (map (\<lambda>a. a - c ! 0)) m)
     else if list_all (\<lambda>row. length row = 1) m
     then new_mat (map (\<lambda>row. map (\<lambda>b. row ! 0 - b) c) m)
     else py_raise (ValueError ''operands could not be broadcast together'')))"

definition iadd_vec :: "mref \<Rightarrow> vref \<Rightarrow> unit py" where
  \<comment> \<open>\<^verbatim>\<open>a += v\<close>: as above, but the result must have the shape of \<^verbatim>\<open>a\<close>\<close>
  "iadd_vec r v = py_bind (read_mat r) (\<lambda>m. py_bind (read_vec v) (\<lambda>c.
     if list_all (\<lambda>row. length row = length c) m
     then write_mat r (map (\<lambda>row. map2 (+) row c) m)
     else if length c = 1
     then write_mat r (map (map (\<lambda>a. a + c ! 0)) m)
     else py_raise (ValueError ''operands could not be broadcast together'')))"

definition np_dot :: "mref \<Rightarrow> mref \<Rightarrow> mref py" where
  \<comment> \<open>\<^verbatim>\<open>a.dot(b)\<close> and \<^verbatim>\<open>a @ b\<close> on two-dimensional arrays\<close>
  "np_dot a b = py_bind (read_mat a) (\<lambda>ma. py_bind (read_mat b) (\<lambda>mb.
     if list_all (\<lambda>row. length row = length mb) ma
     then new_mat (map (\<lambda>row. map (\<lambda>col. sum_list (map2 (*) row col)) (transpose mb)) ma)
     else py_raise (ValueError ''shapes not aligned'')))"

definition np_empty_2_2 :: "real \<times> real \<times> real \<times> real \<Rightarrow> mref py" where
  \<comment> \<open>\<^verbatim>\<open>np.empty((2, 2))\<close>: a fresh 2 by 2 buffer whose contents are whatever the
      memory held; the four values are a parameter of the model\<close>
  "np_empty_2_2 junk = (case junk of (a, b, c, d) \<Rightarrow> new_mat [[a, b], [c, d]])"

section \<open>\<^verbatim>\<open>tools.py\<close>: the rotation matrix\<close>

definition get_rotation_matrix :: "real \<Rightarrow> mref py" where
  "get_rotation_matrix angle =
     (let cos_angle = cos angle;
          sin_angle = sin angle
      in np_array [[cos_angle, sin_angle], [- sin_angle, cos_angle]])"

section \<open>\<^verbatim>\<open>description.py\<close>: the vehicle shape and its pose\<close>

text \<open>
  The instance fields.  \<^verbatim>\<open>self.x\<close> and \<^verbatim>\<open>self.y\<close> are \<^verbatim>\<open>None\<close> until the
  first call of \<^verbatim>\<open>plot_car\<close>; they are called \<open>car_x\<close> and \<open>car_y\<close> here, so
  that \<open>x\<close> and \<open>y\<close> stay free for variables.
\<close>

record CarDescription =
  outlines :: mref
  rear_right_wheel :: mref
  rear_left_wheel :: mref
  fr_wheel_center :: vref
  fl_wheel_center :: vref
  fr_wheel_origin :: mref
  fl_wheel_origin :: mref
  car_x :: "real option"
  car_y :: "real option"
  yaw_vector :: mref

definition get_face_center :: "mref \<Rightarrow> vref py" where
  "get_face_center vertices =
     py_bind (getitem2 vertices 0 0) (\<lambda>v00.
     py_bind (getitem2 vertices 2 0) (\<lambda>v20.
     py_bind (getitem2 vertices 0 1) (\<lambda>v01.
     py_bind (getitem2 vertices 2 1) (\<lambda>v21.
     new_vec [0.5 * (v00 + v20), 0.5 * (v01 + v21)]))))"

definition CarDescription_init :: "real \<times> real \<times> real \<times> real \<Rightarrow> CarDescription py" where
  "CarDescription_init junk =
     (let rear_axle_to_front_bumper = CarParameters_length - CarParameters_rear_overhang;
          centerline_to_wheel_centre = 0.5 * CarParameters_axle_track;
          centerline_to_side = 0.5 * CarParameters_width;
          half_tyre_width = 0.5 * CarParameters_tire_width;
          centerline_to_inwards_rim = centerline_to_wheel_centre - half_tyre_width;
          centerline_to_outwards_rim = centerline_to_wheel_centre + half_tyre_width
      in
      py_bind (np_array [
          [- CarParameters_rear_overhang, centerline_to_side],
          [rear_axle_to_front_bumper, centerline_to_side],
          [rear_axle_to_front_bumper, - centerline_to_side],
          [- CarParameters_rear_overhang, - centerline_to_side]]) (\<lambda>vehicle_vertices.
      py_bind (np_array [
          [- CarParameters_tire_diameter, - centerline_to_inwards_rim],
          [CarParameters_tire_diameter, - centerline_to_inwards_rim],
          [CarParameters_tire_diameter, - centerline_to_outwards_rim],
          [- CarParameters_tire_diameter, - centerline_to_outwards_rim]]) (\<lambda>wheel_vertices.
      py_bind (read_mat vehicle_vertices) (\<lambda>vv.
      py_bind (getitem_row vehicle_vertices 0) (\<lambda>vv0.
      py_bind (np_concatenate vv [vv0]) (\<lambda>outlines'.
      py_bind (read_mat wheel_vertices) (\<lambda>wv.
      py_bind (getitem_row wheel_vertices 0) (\<lambda>wv0.
      py_bind (np_concatenate wv [wv0]) (\<lambda>rear_right_wheel'.
      py_bind (np_copy rear_right_wheel') (\<lambda>rear_left_wheel'.
      py_bind (imul_col rear_left_wheel' 1 (- 1)) (\<lambda>_.
      py_bind (np_copy rear_left_wheel') (\<lambda>front_left_wheel.
      py_bind (np_copy rear_right_wheel') (\<lambda>front_right_wheel.
      py_bind (iadd_col front_left_wheel 0 CarParameters_wheelbase) (\<lambda>_.
      py_bind (iadd_col front_right_wheel 0 CarParameters_wheelbase) (\<lambda>_.
      py_bind (get_face_center front_right_wheel) (\<lambda>fr_wheel_center'.
      py_bind (get_face_center front_left_wheel) (\<lambda>fl_wheel_center'.
      py_bind (np_sub_vec front_right_wheel fr_wheel_center') (\<lambda>fr_wheel_origin'.
      py_bind (np_sub_vec front_left_wheel fl_wheel_center') (\<lambda>fl_wheel_origin'.
      py_bind (np_empty_2_2 junk) (\<lambda>yaw_vector'.
      py_return \<lparr>
        outlines = outlines',
        rear_right_wheel = rear_right_wheel',
        rear_left_wheel = rear_left_wheel',
        fr_wheel_center = fr_wheel_center',
        fl_wheel_center = fl_wheel_center',
        fr_wheel_origin = fr_wheel_origin',
        fl_wheel_origin = fl_wheel_origin',
        car_x = None,
        car_y = None,
        yaw_vector = yaw_vector'\<rparr>))))))))))))))))))))"

definition transform :: "CarDescription \<Rightarrow> mref \<Rightarrow> mref py" where
  "transform self point =
     py_bind (np_dot point (yaw_vector self)) (\<lambda>rotated.
     (let point' = np_T rotated in
      py_bind (case car_x self of
                 None \<Rightarrow> py_raise (TypeError ''unsupported operand type(s) for +=: float and NoneType'')
               | Some x \<Rightarrow> iadd_row point' 0 x) (\<lambda>_.
      py_bind (case car_y self of
                 None \<Rightarrow> py_raise (TypeError ''unsupported operand type(s) for +=: float and NoneType'')
               | Some y \<Rightarrow> iadd_row point' 1 y) (\<lambda>_.
      py_return point'))))"

text \<open>
  \<^verbatim>\<open>frenet_to_cartesian\<close> builds three short arrays and updates the first one in
  place; none of them is stored or returned (the function returns the two entries of
  \<^verbatim>\<open>xy\<close> as numbers), so they are plain lists here and the store is not involved.
  The argument \<^verbatim>\<open>x_road\<close> is unpacked into five names, which fails for any other
  length.
\<close>

definition np_scale :: "real \<Rightarrow> real list \<Rightarrow> real list" where
  \<comment> \<open>\<^verbatim>\<open>c * np.array([...])\<close>\<close>
  "np_scale c v = map (\<lambda>a. c * a) v"

definition np_iadd :: "real list \<Rightarrow> real list \<Rightarrow> real list" where
  \<comment> \<open>\<^verbatim>\<open>xy += w\<close> on two arrays of the same length\<close>
  "np_iadd v w = map2 (+) v w"

definition frenet_to_cartesian ::
  "CarDescription \<Rightarrow> real list \<Rightarrow> error + (real \<times> real \<times> real \<times> real \<times> real)" where
  "frenet_to_cartesian self x_road =
     (case x_road of
        [s, e, mu, v, d] \<Rightarrow>
          (let r = 50;
               yaw = mu + (pi / 2 + (s / r));
               xy = np_scale r [cos (s / r), sin (s / r)];
               xy = np_iadd xy (np_scale e [cos (pi + (s / r)), sin (pi + (s / r))]);
               xy = np_iadd xy (np_scale CarParameters_l_r [cos yaw, sin yaw])
           in Inr (xy ! 0, xy ! 1, v, yaw, d))
      | _ \<Rightarrow> Inl (ValueError ''not enough or too many values to unpack (expected 5)''))"

definition plot_car ::
  "CarDescription \<Rightarrow> real list \<Rightarrow>
     ((real \<times> real \<times> mref \<times> mref \<times> mref \<times> mref \<times> mref) \<times> CarDescription) py" where
  "plot_car self x_road =
     (case frenet_to_cartesian self x_road of
        Inl err \<Rightarrow> py_raise err
      | Inr (x, y, _, yaw, steer) \<Rightarrow>
          (let self = self\<lparr>car_x := Some x, car_y := Some y\<rparr> in
           py_bind (get_rotation_matrix yaw) (\<lambda>yaw_vector'.
           (let self = self\<lparr>yaw_vector := yaw_vector'\<rparr> in
            py_bind (get_rotation_matrix steer) (\<lambda>steer_vector.
            py_bind (np_copy (fr_wheel_origin self)) (\<lambda>front_right_wheel.
            py_bind (np_copy (fl_wheel_origin self)) (\<lambda>front_left_wheel.
            py_bind (np_dot front_right_wheel steer_vector) (\<lambda>front_right_wheel.
            py_bind (np_dot front_left_wheel steer_vector) (\<lambda>front_left_wheel.
            py_bind (iadd_vec front_right_wheel (fr_wheel_center self)) (\<lambda>_.
            py_bind (iadd_vec front_left_wheel (fl_wheel_center self)) (\<lambda>_.
            py_bind (transform self (outlines self)) (\<lambda>outlines'.
            py_bind (transform self (rear_right_wheel self)) (\<lambda>rear_right_wheel'.
            py_bind (transform self (rear_left_wheel self)) (\<lambda>rear_left_wheel'.
            py_bind (transform self front_right_wheel) (\<lambda>front_right_wheel.
            py_bind (transform self front_left_wheel) (\<lambda>front_left_wheel.
            py_return ((x, y, outlines', front_right_wheel, rear_right_wheel',
                        front_left_wheel, rear_left_wheel'), self)))))))))))))))))"

section \<open>\<^verbatim>\<open>tools.py\<close>: resampling a waypoint list\<close>

subsection \<open>The NumPy functions on one-dimensional arrays\<close>

definition np_ediff1d :: "real list \<Rightarrow> real list" where
  \<comment> \<open>\<^verbatim>\<open>ary[1:] - ary[:-1]\<close>\<close>
  "np_ediff1d ary = map2 (-) (tl ary) (butlast ary)"

definition np_hypot :: "real list \<Rightarrow> real list \<Rightarrow> real list" where
  "np_hypot a b = map2 (\<lambda>u v. sqrt (u\<^sup>2 + v\<^sup>2)) a b"

primrec cumsum_from :: "real \<Rightarrow> real list \<Rightarrow> real list" where
  "cumsum_from acc [] = []"
| "cumsum_from acc (a # as) = (acc + a) # cumsum_from (acc + a) as"

definition np_cumsum :: "real list \<Rightarrow> real list" where
  "np_cumsum a = cumsum_from 0 a"

definition np_arange :: "real \<Rightarrow> real \<Rightarrow> real \<Rightarrow> error + real list" where
  \<comment> \<open>\<^verbatim>\<open>np.arange(start, stop, step)\<close>: \<open>\<lceil>(stop - start) / step\<rceil>\<close> values
      \<open>start + i * step\<close>, none when that count is not positive; a zero step has no
      count and is an error.  The quotient is taken in exact arithmetic here; NumPy
      takes it in double precision, so where the quotient is an integer or next to one
      the library's count can differ from this one by a sample.  The theorems on curve
      construction state a count only where the two agree: an empty range for a
      negative step, and examples whose numbers are exact in double precision.\<close>
  "np_arange start stop step =
     (if step = 0 then
        (if stop - start = 0 then Inl (ValueError ''arange: cannot compute length'')
         else Inl (ValueError ''Maximum allowed size exceeded''))
      else Inr (map (\<lambda>i. start + real i * step) [0..<nat \<lceil>(stop - start) / step\<rceil>]))"

definition np_arctan2 :: "real \<Rightarrow> real \<Rightarrow> real" where
  \<comment> \<open>\<^verbatim>\<open>np.arctan2(y, x)\<close>: the angle of the point \<open>(x, y)\<close>, in \<open>(-\<pi>, \<pi>]\<close>\<close>
  "np_arctan2 y x =
     (if 0 < x then arctan (y / x)
      else if x < 0 then (if 0 \<le> y then arctan (y / x) + pi else arctan (y / x) - pi)
      else if 0 < y then pi / 2
      else if y < 0 then - (pi / 2)
      else 0)"

definition np_divide :: "real \<Rightarrow> real \<Rightarrow> real option" where
  \<comment> \<open>Division of array entries.  NumPy does not raise on a zero divisor: the entry
      becomes \<^verbatim>\<open>nan\<close> or \<^verbatim>\<open>inf\<close>, which no real number stands for, so such an
      entry is \<open>None\<close>.\<close>
  "np_divide a b = (if b = 0 then None else Some (a / b))"

subsection \<open>The interpolant\<close>

text \<open>
  \<^verbatim>\<open>scipy.interpolate.CubicSpline\<close> is a library class.  What the code needs of a
  fitted spline is its value and its first two derivatives at a parameter: an
  interpolant is a function from the order of the derivative (0 for the value) and the
  parameter to a point.  The fit itself, from knots, points and boundary mode to an
  interpolant, is a parameter \<open>fit\<close> of everything below.
\<close>

type_synonym interpolant = "nat \<Rightarrow> real \<Rightarrow> real \<times> real"

type_synonym spline_fit = "real list \<Rightarrow> (real \<times> real) list \<Rightarrow> string \<Rightarrow> interpolant"

definition allclose :: "real \<Rightarrow> real \<Rightarrow> bool" where
  \<comment> \<open>\<^verbatim>\<open>np.allclose(a, b, rtol=1e-15, atol=1e-15)\<close> on one entry\<close>
  "allclose a b \<longleftrightarrow> \<bar>a - b\<bar> \<le> 1 / 10 ^ 15 + 1 / 10 ^ 15 * \<bar>b\<bar>"

definition CubicSpline ::
  "spline_fit \<Rightarrow> real list \<Rightarrow> (real \<times> real) list \<Rightarrow> string \<Rightarrow> string + interpolant" where
  \<comment> \<open>Modelled from the spec: the constructor of the interpolant (SciPy's
      \<^verbatim>\<open>CubicSpline(x, y, bc_type=..., axis=0, extrapolate=False)\<close>, not under
      \<^verbatim>\<open>src/\<close>).  The spec asks for at least two points and rejects degenerate or
      duplicate knots with a construction error; the checks are written in the order
      the library makes them, and \<open>Inl msg\<close> is its \<^verbatim>\<open>ValueError(msg)\<close>.\<close>
  "CubicSpline fit x y bc_type =
     (if length x < 2 then Inl ''`x` must contain at least 2 elements.''
      else if length x \<noteq> length y
        then Inl ''The length of `y` along `axis`=0 doesn't match the length of `x`''
      else if \<not> list_all (\<lambda>dx. 0 < dx) (np_ediff1d x)
        then Inl ''`x` must be strictly increasing sequence.''
      else if bc_type = ''periodic'' \<and>
              \<not> (allclose (fst (hd y)) (fst (last y)) \<and> allclose (snd (hd y)) (snd (last y)))
        then Inl ''The first and last `y` point along axis 0 must be identical (within machine precision) when bc_type='periodic'.''
      else if bc_type \<notin> set [''clamped'', ''natural'', ''not-a-knot'', ''periodic'']
        then Inl (''bc_type='' @ bc_type @ '' is not allowed.'')
      else Inr (fit x y bc_type))"

subsection \<open>The two functions of \<^verbatim>\<open>tools.py\<close>\<close>

definition initialise_cubic_spline ::
  "spline_fit \<Rightarrow> real list \<Rightarrow> real list \<Rightarrow> real \<Rightarrow> string \<Rightarrow> error + (interpolant \<times> real list)" where
  "initialise_cubic_spline fit x y ds bc_type =
     (let ex = np_ediff1d x; ey = np_ediff1d y in
      if length ex \<noteq> length ey \<and> length ex \<noteq> 1 \<and> length ey \<noteq> 1
      then Inl (ValueError ''operands could not be broadcast together'')
      else if length x \<noteq> length y
      then Inl (ValueError ''setting an array element with a sequence. The requested array has an inhomogeneous shape'')
      else
        (let distance = [0] @ np_cumsum (np_hypot ex ey);
             points = zip x y
         in case np_arange 0 (last distance) ds of
              Inl err \<Rightarrow> Inl err
            | Inr s \<Rightarrow>
                (case CubicSpline fit distance points bc_type of
                   Inl e \<Rightarrow> Inl (ValueError (e @
                     '' If you are getting a sequence error, do check if your input dataset contains consecutive duplicate(s).''))
                 | Inr cs \<Rightarrow> Inr (cs, s))))"

definition generate_cubic_spline ::
  "spline_fit \<Rightarrow> real list \<Rightarrow> real list \<Rightarrow> real \<Rightarrow> string \<Rightarrow>
     error + (real list \<times> real list \<times> real list \<times> real option list)" where
  "generate_cubic_spline fit x y ds bc_type =
     (case initialise_cubic_spline fit x y ds bc_type of
        Inl err \<Rightarrow> Inl err
      | Inr (cs, s) \<Rightarrow>
          (let dx = map (\<lambda>t. fst (cs 1 t)) s;
               dy = map (\<lambda>t. snd (cs 1 t)) s;
               yaw = map2 np_arctan2 dy dx;
               ddx = map (\<lambda>t. fst (cs 2 t)) s;
               ddy = map (\<lambda>t. snd (cs 2 t)) s;
               curvature = map2 np_divide
                 (map2 (-) (map2 (*) ddy dx) (map2 (*) ddx dy))
                 (map (\<lambda>a. a powr 1.5) (map2 (+) (map2 (*) dx dx) (map2 (*) dy dy)));
               cx = map (\<lambda>t. fst (cs 0 t)) s;
               cy = map (\<lambda>t. snd (cs 0 t)) s
           in Inr (cx, cy, yaw, curvature)))"

section \<open>Notions used in the statements\<close>

definition empty_heap :: heap where
  "empty_heap = \<lparr>mats = (\<lambda>_. []), vecs = (\<lambda>_. []), next_free = 0\<rparr>"

text \<open>A car built by \<^verbatim>\<open>CarDescription()\<close> in the empty store, and the store it leaves.\<close>

definition car0 :: CarDescription where
  "car0 = fst (projr (CarDescription_init (0, 0, 0, 0) empty_heap))"

definition heap0 :: heap where
  "heap0 = snd (projr (CarDescription_init (0, 0, 0, 0) empty_heap))"

subsection \<open>What a call leaves untouched\<close>

text \<open>
  \<open>frame_below n h h'\<close>: the store \<open>h'\<close> has every two-dimensional buffer below
  address \<open>n\<close> and every one-dimensional buffer as \<open>h\<close> has it, and nothing
  was deallocated.  \<open>keeps n m Q\<close>: whenever the computation \<open>m\<close> returns, from a
  store whose buffers below \<open>n\<close> are all allocated, it has left those buffers alone
  and its result satisfies \<open>Q\<close>.
\<close>

definition frame_below :: "nat \<Rightarrow> heap \<Rightarrow> heap \<Rightarrow> bool" where
  "frame_below n h h' \<longleftrightarrow>
     next_free h \<le> next_free h' \<and> vecs h' = vecs h \<and> (\<forall>a<n. mats h' a = mats h a)"

definition keeps :: "nat \<Rightarrow> 'a py \<Rightarrow> ('a \<Rightarrow> bool) \<Rightarrow> bool" where
  "keeps n m Q \<longleftrightarrow>
     (\<forall>h r h'. n \<le> next_free h \<longrightarrow> m h = Inr (r, h') \<longrightarrow> frame_below n h h' \<and> Q r)"

subsection \<open>The transforms, as the specification words them\<close>

text \<open>
  The rotation matrix of an angle, a row vector times a matrix (\<open>point \<cdot> R\<close>), and
  "rotate by \<open>R\<close>, then translate by \<open>t\<close>" for one point.  A list of \<open>n\<close> points
  is an \<open>n\<close> by 2 array; \<open>coordinate_rows\<close> is the 2 by \<open>n\<close> layout in which
  \<^verbatim>\<open>transform\<close> returns it: the row of first coordinates, then the row of second
  coordinates.
\<close>

definition rotation :: "real \<Rightarrow> real list list" where
  "rotation a = [[cos a, sin a], [- sin a, cos a]]"

definition row_times :: "real list \<Rightarrow> real list list \<Rightarrow> real list" where
  "row_times p M = map (\<lambda>col. sum_list (map2 (*) p col)) (transpose M)"

definition place :: "real list list \<Rightarrow> real list \<Rightarrow> real list \<Rightarrow> real list" where
  "place R t p = map2 (+) (row_times p R) t"

definition coordinate_rows :: "real list list \<Rightarrow> real list list" where
  "coordinate_rows P = [map (\<lambda>p. p ! 0) P, map (\<lambda>p. p ! 1) P]"

definition points :: "real list list \<Rightarrow> bool" where
  "points P \<longleftrightarrow> P \<noteq> [] \<and> list_all (\<lambda>row. length row = 2) P"

definition closed_xy :: "real list list \<Rightarrow> bool" where
  \<comment> \<open>a returned polygon: two rows of five coordinates, vertex \<open>i\<close> being
      \<open>(A ! 0 ! i, A ! 1 ! i)\<close>, whose first and last vertex are the same\<close>
  "closed_xy A \<longleftrightarrow>
     length A = 2 \<and> length (A ! 0) = 5 \<and> length (A ! 1) = 5
     \<and> A ! 0 ! 0 = A ! 0 ! 4 \<and> A ! 1 ! 0 = A ! 1 ! 4"

subsection \<open>The shapes that \<^verbatim>\<open>__init__\<close> stores\<close>

definition outline_shape :: "real list list" where
  "outline_shape = [[- 1.005, 0.982], [3.965, 0.982], [3.965, - 0.982], [- 1.005, - 0.982],
                    [- 1.005, 0.982]]"

definition rear_right_shape :: "real list list" where
  "rear_right_shape = [[- 0.4826, - 0.7175], [0.4826, - 0.7175], [0.4826, - 0.9825],
                       [- 0.4826, - 0.9825], [- 0.4826, - 0.7175]]"

definition rear_left_shape :: "real list list" where
  "rear_left_shape = [[- 0.4826, 0.7175], [0.4826, 0.7175], [0.4826, 0.9825],
                      [- 0.4826, 0.9825], [- 0.4826, 0.7175]]"

definition front_right_origin_shape :: "real list list" where
  "front_right_origin_shape = [[- 0.4826, 0.1325], [0.4826, 0.1325], [0.4826, - 0.1325],
                               [- 0.4826, - 0.1325], [- 0.4826, 0.1325]]"

definition front_left_origin_shape :: "real list list" where
  "front_left_origin_shape = [[- 0.4826, - 0.1325], [0.4826, - 0.1325], [0.4826, 0.1325],
                              [- 0.4826, 0.1325], [- 0.4826, - 0.1325]]"

subsection \<open>Cars that the program can hold\<close>

text \<open>
  \<open>polygons_ok h self\<close>: the five shape fields refer to allocated arrays of five
  points whose first and last point agree, and the two face centers to allocated
  arrays of length two.  \<open>reachable h self\<close>: the instance \<open>self\<close> was built by
  \<^verbatim>\<open>__init__\<close> and then went through any number of \<^verbatim>\<open>plot_car\<close> calls that
  returned, leaving the store \<open>h\<close>.
\<close>

definition polygons_ok :: "heap \<Rightarrow> CarDescription \<Rightarrow> bool" where
  "polygons_ok h self \<longleftrightarrow>
     list_all (\<lambda>r. base r < next_free h \<and> length (deref h r) = 5
                 \<and> list_all (\<lambda>row. length row = 2) (deref h r)
                 \<and> hd (deref h r) = last (deref h r))
       [outlines self, rear_right_wheel self, rear_left_wheel self,
        fr_wheel_origin self, fl_wheel_origin self]
     \<and> list_all (\<lambda>v. v < next_free h \<and> length (vecs h v) = 2)
       [fr_wheel_center self, fl_wheel_center self]"

inductive reachable :: "heap \<Rightarrow> CarDescription \<Rightarrow> bool" where
  reachable_init:
    "CarDescription_init junk h0 = Inr (self, h) \<Longrightarrow> reachable h self"
| reachable_plot_car:
    "reachable h self \<Longrightarrow> plot_car self x_road h = Inr ((res, self'), h')
       \<Longrightarrow> reachable h' self'"

subsection \<open>Waypoint lists\<close>

text \<open>
  The total chord length of a waypoint list, the hint that
  \<^verbatim>\<open>initialise_cubic_spline\<close> appends to the library's message, and one concrete
  interpolant for closed examples: the straight line from the first to the last
  point, which is what a natural cubic spline through two waypoints is.  Every general
  statement below holds for any interpolant.
\<close>

definition chord_length :: "real list \<Rightarrow> real list \<Rightarrow> real" where
  "chord_length x y = sum_list (np_hypot (np_ediff1d x) (np_ediff1d y))"

definition duplicate_hint :: string where
  "duplicate_hint = '' If you are getting a sequence error, do check if your input dataset contains consecutive duplicate(s).''"

definition line_fit :: spline_fit where
  "line_fit knots pts bc_type =
     (let L = last knots;
          ux = (fst (last pts) - fst (hd pts)) / L;
          uy = (snd (last pts) - snd (hd pts)) / L
      in (\<lambda>nu t. if nu = 0 then (fst (hd pts) + t * ux, snd (hd pts) + t * uy)
                else if nu = 1 then (ux, uy)
                else (0, 0)))"

section \<open>Evaluating the model\<close>

lemmas CarParameters_defs =
  CarParameters_length_def CarParameters_width_def CarParameters_tire_diameter_def
  CarParameters_tire_width_def CarParameters_axle_track_def CarParameters_wheelbase_def
  CarParameters_rear_overhang_def CarParameters_l_frac_def CarParameters_l_r_def

lemmas store_defs =
  py_bind_def py_return_def py_raise_def new_mat_def new_vec_def deref_def read_mat_def
  write_mat_def read_vec_def

lemmas numpy_defs =
  np_array_def np_copy_def np_T_def getitem_row_def getitem2_def np_concatenate_def
  imul_col_def iadd_col_def iadd_row_def np_sub_vec_def iadd_vec_def np_dot_def
  np_empty_2_2_def

lemma frenet_to_cartesian_5:
  "frenet_to_cartesian self [s, e, mu, v, d] =
     Inr (50 * cos (s / 50) + e * cos (pi + s / 50)
            + CarParameters_l_r * cos (mu + (pi / 2 + s / 50)),
          50 * sin (s / 50) + e * sin (pi + s / 50)
            + CarParameters_l_r * sin (mu + (pi / 2 + s / 50)),
          v, mu + (pi / 2 + s / 50), d)"
  by (simp add: frenet_to_cartesian_def np_scale_def np_iadd_def Let_def)

section \<open>The store: what the operations leave untouched\<close>

lemma frame_below_refl: "frame_below n h h"
  by (simp add: frame_below_def)

lemma frame_below_trans:
  "frame_below n h1 h2 \<Longrightarrow> frame_below n h2 h3 \<Longrightarrow> frame_below n h1 h3"
  by (simp add: frame_below_def)

lemma py_bindE:
  assumes "py_bind m f h = Inr (r, h')"
  obtains a h1 where "m h = Inr (a, h1)" and "f a h1 = Inr (r, h')"
  using assms by (auto simp: py_bind_def split: sum.splits)

lemma new_mat_frame:
  assumes "new_mat m h = Inr (r, h')" and "n \<le> next_free h"
  shows "frame_below n h h' \<and> n \<le> base r \<and> base r < next_free h'"
  using assms by (auto simp: new_mat_def frame_below_def)

lemma write_mat_frame:
  assumes "write_mat r m h = Inr (u, h')" and "n \<le> base r"
  shows "frame_below n h h'"
  using assms by (auto simp: write_mat_def frame_below_def)

lemma read_mat_same: "read_mat r h = Inr (m, h') \<Longrightarrow> h' = h"
  by (auto simp: read_mat_def)

lemma read_vec_same: "read_vec r h = Inr (m, h') \<Longrightarrow> h' = h"
  by (auto simp: read_vec_def)

lemma np_dot_frame:
  assumes "np_dot a b h = Inr (r, h')" and "n \<le> next_free h"
  shows "frame_below n h h' \<and> n \<le> base r \<and> base r < next_free h'"
  using assms
  by (auto simp: np_dot_def elim!: py_bindE dest!: read_mat_same split: if_splits
      dest: new_mat_frame simp: py_raise_def)

lemma np_copy_frame:
  assumes "np_copy a h = Inr (r, h')" and "n \<le> next_free h"
  shows "frame_below n h h' \<and> n \<le> base r \<and> base r < next_free h'"
  using assms
  by (auto simp: np_copy_def elim!: py_bindE dest!: read_mat_same dest: new_mat_frame)

lemma get_rotation_matrix_frame:
  assumes "get_rotation_matrix angle h = Inr (r, h')" and "n \<le> next_free h"
  shows "frame_below n h h' \<and> r = \<lparr>base = next_free h, transposed = False\<rparr>"
  using assms
  by (auto simp: get_rotation_matrix_def np_array_def Let_def new_mat_def frame_below_def)

lemma iadd_row_frame:
  assumes "iadd_row r i c h = Inr (u, h')" and "n \<le> base r"
  shows "frame_below n h h'"
  using assms
  by (auto simp: iadd_row_def py_raise_def elim!: py_bindE dest!: read_mat_same split: if_splits
      dest: write_mat_frame)

lemma iadd_vec_frame:
  assumes "iadd_vec r v h = Inr (u, h')" and "n \<le> base r"
  shows "frame_below n h h'"
  using assms
  by (auto simp: iadd_vec_def py_raise_def elim!: py_bindE dest!: read_mat_same read_vec_same split: if_splits
      dest: write_mat_frame)

lemma frame_below_next: "frame_below n h h' \<Longrightarrow> n \<le> next_free h \<Longrightarrow> n \<le> next_free h'"
  by (simp add: frame_below_def)

lemma transform_frame:
  assumes "transform self p h = Inr (r, h')" and "n \<le> next_free h"
  shows "frame_below n h h' \<and> n \<le> base r"
proof -
  from assms(1) obtain rot h1 u1 h2 u2 where
    d: "np_dot p (yaw_vector self) h = Inr (rot, h1)" and
    r: "r = np_T rot" and
    a1: "(case car_x self of None \<Rightarrow> py_raise (TypeError ''unsupported operand type(s) for +=: float and NoneType'')
           | Some x \<Rightarrow> iadd_row (np_T rot) 0 x) h1 = Inr (u1, h2)" and
    a2: "(case car_y self of None \<Rightarrow> py_raise (TypeError ''unsupported operand type(s) for +=: float and NoneType'')
           | Some y \<Rightarrow> iadd_row (np_T rot) 1 y) h2 = Inr (u2, h')"
    by (auto simp: transform_def Let_def py_return_def elim!: py_bindE)
  from np_dot_frame[OF d assms(2)] have f1: "frame_below n h h1" and b: "n \<le> base rot" by auto
  from a1 b have f2: "frame_below n h1 h2"
    by (auto simp: py_raise_def np_T_def split: option.splits dest: iadd_row_frame)
  from a2 b have f3: "frame_below n h2 h'"
    by (auto simp: py_raise_def np_T_def split: option.splits dest: iadd_row_frame)
  from f1 f2 f3 b r show ?thesis
    by (auto simp: np_T_def intro: frame_below_trans)
qed

lemma keepsD:
  "keeps n m Q \<Longrightarrow> n \<le> next_free h \<Longrightarrow> m h = Inr (r, h') \<Longrightarrow> frame_below n h h' \<and> Q r"
  by (simp add: keeps_def)

lemma keeps_bind:
  assumes "keeps n m Q" and "\<And>a. Q a \<Longrightarrow> keeps n (f a) R"
  shows "keeps n (py_bind m f) R"
  unfolding keeps_def
proof (intro allI impI)
  fix h r h'
  assume n: "n \<le> next_free h" and run: "py_bind m f h = Inr (r, h')"
  from run obtain a h1 where m: "m h = Inr (a, h1)" and f: "f a h1 = Inr (r, h')"
    by (rule py_bindE)
  from keepsD[OF assms(1) n m] have f1: "frame_below n h h1" and q: "Q a" by auto
  from f1 n have n1: "n \<le> next_free h1" by (rule frame_below_next)
  from keepsD[OF assms(2)[OF q] n1 f] have "frame_below n h1 h'" and "R r" by auto
  with f1 show "frame_below n h h' \<and> R r" by (auto intro: frame_below_trans)
qed

lemma keeps_return: "Q a \<Longrightarrow> keeps n (py_return a) Q"
  by (simp add: keeps_def py_return_def frame_below_refl)

lemma keeps_raise: "keeps n (py_raise e) Q"
  by (simp add: keeps_def py_raise_def)

lemma keeps_rotation: "keeps n (get_rotation_matrix angle) (\<lambda>r. n \<le> base r)"
  unfolding keeps_def by (auto dest: get_rotation_matrix_frame)

lemma keeps_np_copy: "keeps n (np_copy a) (\<lambda>r. n \<le> base r)"
  unfolding keeps_def by (auto dest: np_copy_frame)

lemma keeps_np_dot: "keeps n (np_dot a b) (\<lambda>r. n \<le> base r)"
  unfolding keeps_def by (auto dest: np_dot_frame)

lemma keeps_iadd_vec: "n \<le> base r \<Longrightarrow> keeps n (iadd_vec r v) (\<lambda>_. True)"
  unfolding keeps_def by (auto dest: iadd_vec_frame)

lemma keeps_transform: "keeps n (transform self p) (\<lambda>r. n \<le> base r)"
  unfolding keeps_def by (auto dest: transform_frame)

lemmas keeps_ops = keeps_rotation keeps_np_copy keeps_np_dot keeps_iadd_vec keeps_transform

lemma keeps_plot_car:
  "keeps n (plot_car self x_road)
     (\<lambda>(res, self'). self' = self\<lparr>car_x := Some (fst res), car_y := Some (fst (snd res)),
                                  yaw_vector := yaw_vector self'\<rparr>
                      \<and> n \<le> base (yaw_vector self'))"
proof (cases "frenet_to_cartesian self x_road")
  case (Inl err)
  then show ?thesis by (simp add: plot_car_def keeps_raise)
next
  case (Inr pose)
  then show ?thesis
    unfolding plot_car_def
    apply (simp add: Let_def split: prod.splits)
    apply (intro allI impI)
    apply (rule keeps_bind, rule keeps_ops, (assumption)?)+
    apply (rule keeps_return)
    apply simp
    done
qed

lemma plot_car_frame:
  assumes "plot_car self x_road h = Inr (((x, y, polys), self'), h')"
  shows "frame_below (next_free h) h h'
     \<and> self' = self\<lparr>car_x := Some x, car_y := Some y, yaw_vector := yaw_vector self'\<rparr>
     \<and> next_free h \<le> base (yaw_vector self')"
  using keepsD[OF keeps_plot_car _ assms, of "next_free h"] by simp

section \<open>The store: what the operations compute\<close>

lemma transpose_pairs:
  "transpose [map f P, map g P] = map (\<lambda>row. [f row, g row]) P"
  by (induction P) simp_all

lemma transpose_empties: "transpose (map (\<lambda>row. []) P) = []"
  by (induction P) simp_all

lemma transpose_rows:
  "P \<noteq> [] \<Longrightarrow> transpose (map (\<lambda>row. [f row, g row]) P) = [map f P, map g P]"
  by (cases P) (simp_all add: o_def transpose_empties)

lemma row2: "length row = 2 \<Longrightarrow> row = [row ! 0, row ! 1]"
  by (cases row; cases "tl row") auto

lemma place_2:
  "length p = 2 \<Longrightarrow> place [[c, s], [- s, c]] [tx, ty] p
     = [p ! 0 * c - p ! 1 * s + tx, p ! 0 * s + p ! 1 * c + ty]"
  by (cases p; cases "tl p") (auto simp: place_def row_times_def algebra_simps)

lemma map_place:
  assumes "list_all (\<lambda>row. length row = 2) P"
  shows "map (place [[c, s], [- s, c]] [tx, ty]) P
       = map (\<lambda>p. [p ! 0 * c - p ! 1 * s + tx, p ! 0 * s + p ! 1 * c + ty]) P"
  using assms by (intro map_cong[OF refl]) (simp add: list_all_iff place_2)

lemma np_dot_exec:
  assumes "deref h a = A" and "deref h b = B" and "list_all (\<lambda>row. length row = length B) A"
  shows "np_dot a b h = Inr (\<lparr>base = next_free h, transposed = False\<rparr>,
     h\<lparr>mats := (mats h)(next_free h := map (\<lambda>row. row_times row B) A),
       next_free := Suc (next_free h)\<rparr>)"
  using assms by (simp add: np_dot_def py_bind_def read_mat_def new_mat_def row_times_def)

lemma row_times_rotation:
  fixes p :: "real list"
  shows "length p = 2 \<Longrightarrow> row_times p [[c, s], [- s, c]] = [p ! 0 * c - p ! 1 * s, p ! 0 * s + p ! 1 * c]"
  by (cases p; cases "tl p") (auto simp: row_times_def algebra_simps)

lemma deref_T:
  assumes "mats h a = map (\<lambda>p. [f p, g p]) P" and "P \<noteq> []"
  shows "deref h \<lparr>base = a, transposed = True\<rparr> = [map f P, map g P]"
  using assms by (simp add: deref_def transpose_rows)

lemma iadd_row_T_0:
  assumes "mats h a = map (\<lambda>p. [f p, g p]) P" and "P \<noteq> []"
  shows "iadd_row \<lparr>base = a, transposed = True\<rparr> 0 c h
       = Inr ((), h\<lparr>mats := (mats h)(a := map (\<lambda>p. [f p + c, g p]) P)\<rparr>)"
proof -
  have "transpose [map (\<lambda>p. f p + c) P, map g P] = map (\<lambda>p. [f p + c, g p]) P"
    by (rule transpose_pairs)
  then show ?thesis
    by (simp add: iadd_row_def py_bind_def read_mat_def write_mat_def deref_T[OF assms] o_def)
qed

lemma iadd_row_T_1:
  assumes "mats h a = map (\<lambda>p. [f p, g p]) P" and "P \<noteq> []"
  shows "iadd_row \<lparr>base = a, transposed = True\<rparr> 1 c h
       = Inr ((), h\<lparr>mats := (mats h)(a := map (\<lambda>p. [f p, g p + c]) P)\<rparr>)"
proof -
  have "transpose [map f P, map (\<lambda>p. g p + c) P] = map (\<lambda>p. [f p, g p + c]) P"
    by (rule transpose_pairs)
  then show ?thesis
    by (simp add: iadd_row_def py_bind_def read_mat_def write_mat_def deref_T[OF assms] o_def)
qed

lemma transform_exec:
  assumes x: "car_x self = Some x" and y: "car_y self = Some y"
    and R: "deref h (yaw_vector self) = [[c, s], [- s, c]]"
    and P: "deref h p = P" "points P"
  shows "transform self p h = Inr (\<lparr>base = next_free h, transposed = True\<rparr>,
     h\<lparr>mats := (mats h)(next_free h := map (place [[c, s], [- s, c]] [x, y]) P),
       next_free := Suc (next_free h)\<rparr>)"
proof -
  have all2: "list_all (\<lambda>row. length row = 2) P" and ne: "P \<noteq> []"
    using P(2) by (simp_all add: points_def)
  define n where "n = next_free h"
  define f where "f = (\<lambda>p :: real list. p ! 0 * c - p ! 1 * s)"
  define g where "g = (\<lambda>p :: real list. p ! 0 * s + p ! 1 * c)"
  define h1 where "h1 = h\<lparr>mats := (mats h)(n := map (\<lambda>p. [f p, g p]) P), next_free := Suc n\<rparr>"
  define h2 where "h2 = h1\<lparr>mats := (mats h1)(n := map (\<lambda>p. [f p + x, g p]) P)\<rparr>"
  define h3 where "h3 = h2\<lparr>mats := (mats h2)(n := map (\<lambda>p. [f p + x, g p + y]) P)\<rparr>"
  have "list_all (\<lambda>row. length row = length [[c, s], [- s, c]]) P"
    using all2 by (simp add: numeral_2_eq_2)
  note np_dot_exec[OF P(1) R this]
  moreover have "map (\<lambda>row. row_times row [[c, s], [- s, c]]) P = map (\<lambda>p. [f p, g p]) P"
    using all2 by (intro map_cong[OF refl]) (simp add: list_all_iff row_times_rotation f_def g_def)
  ultimately have d: "np_dot p (yaw_vector self) h = Inr (\<lparr>base = n, transposed = False\<rparr>, h1)"
    by (simp add: h1_def n_def)
  have m1: "mats h1 n = map (\<lambda>p. [f p, g p]) P"
    by (simp add: h1_def)
  have i1: "iadd_row \<lparr>base = n, transposed = True\<rparr> 0 x h1 = Inr ((), h2)"
    unfolding h2_def by (rule iadd_row_T_0[OF m1 ne])
  have m2: "mats h2 n = map (\<lambda>p. [f p + x, g p]) P"
    by (simp add: h2_def)
  have i2: "iadd_row \<lparr>base = n, transposed = True\<rparr> (Suc 0) y h2 = Inr ((), h3)"
    unfolding h3_def using iadd_row_T_1[OF m2 ne] by simp
  have run: "transform self p h = Inr (\<lparr>base = n, transposed = True\<rparr>, h3)"
    unfolding transform_def
    by (simp add: d i1 i2 x y py_bind_def py_return_def np_T_def Let_def)
  have "map (place [[c, s], [- s, c]] [x, y]) P = map (\<lambda>p. [f p + x, g p + y]) P"
    unfolding map_place[OF all2] by (simp add: f_def g_def)
  then have "h3 = h\<lparr>mats := (mats h)(n := map (place [[c, s], [- s, c]] [x, y]) P),
       next_free := Suc n\<rparr>"
    by (simp only: h3_def h2_def h1_def) simp
  with run show ?thesis by (simp add: n_def)
qed

lemma get_rotation_matrix_exec:
  "get_rotation_matrix a h = Inr (\<lparr>base = next_free h, transposed = False\<rparr>,
     h\<lparr>mats := (mats h)(next_free h := rotation a), next_free := Suc (next_free h)\<rparr>)"
  by (simp add: get_rotation_matrix_def np_array_def new_mat_def rotation_def Let_def)

lemma np_copy_exec:
  "np_copy r h = Inr (\<lparr>base = next_free h, transposed = False\<rparr>,
     h\<lparr>mats := (mats h)(next_free h := deref h r), next_free := Suc (next_free h)\<rparr>)"
  by (simp add: np_copy_def py_bind_def read_mat_def new_mat_def)

lemma iadd_vec_exec:
  assumes "mats h a = A" and "vecs h v = c" and "list_all (\<lambda>row. length row = length c) A"
  shows "iadd_vec \<lparr>base = a, transposed = False\<rparr> v h
    = Inr ((), h\<lparr>mats := (mats h)(a := map (\<lambda>row. map2 (+) row c) A)\<rparr>)"
  using assms by (simp add: iadd_vec_def py_bind_def read_mat_def read_vec_def write_mat_def deref_def)

lemma length_row_times_rotation: "length (row_times p (rotation a)) = 2"
  by (simp add: row_times_def rotation_def)

lemma length_place_rotation: "length t = 2 \<Longrightarrow> length (place (rotation a) t p) = 2"
  by (simp add: place_def length_row_times_rotation)

lemma points_place: "P \<noteq> [] \<Longrightarrow> length t = 2 \<Longrightarrow> points (map (place (rotation a) t) P)"
  by (simp add: points_def list_all_iff length_place_rotation)

lemma transpose_points:
  assumes "points Q"
  shows "transpose Q = coordinate_rows Q"
proof -
  have "map (\<lambda>q. [q ! 0, q ! 1]) Q = map (\<lambda>q. q) Q"
  proof (rule map_cong[OF refl])
    fix q assume "q \<in> set Q"
    with assms have "length q = 2" by (simp add: points_def list_all_iff)
    then show "[q ! 0, q ! 1] = q" by (rule row2[symmetric])
  qed
  then have "Q = map (\<lambda>q. [q ! 0, q ! 1]) Q" by simp
  then have "transpose Q = transpose (map (\<lambda>q. [q ! 0, q ! 1]) Q)" by simp
  also have "\<dots> = [map (\<lambda>q. q ! 0) Q, map (\<lambda>q. q ! 1) Q]"
    using assms by (intro transpose_rows) (simp add: points_def)
  finally show ?thesis by (simp add: coordinate_rows_def)
qed

lemma plot_car_exec:
  fixes h :: heap and self :: CarDescription
  assumes inv: "polygons_ok h self"
    and pose: "frenet_to_cartesian self x_road = Inr (x, y, v, yaw, d)"
    and n: "n = next_free h"
  shows "\<exists>h'. plot_car self x_road h =
      Inr (((x, y, \<lparr>base = n + 6, transposed = True\<rparr>, \<lparr>base = n + 9, transposed = True\<rparr>,
             \<lparr>base = n + 7, transposed = True\<rparr>, \<lparr>base = n + 10, transposed = True\<rparr>,
             \<lparr>base = n + 8, transposed = True\<rparr>),
            self\<lparr>car_x := Some x, car_y := Some y,
                 yaw_vector := \<lparr>base = n, transposed = False\<rparr>\<rparr>), h')
    \<and> next_free h' = n + 11
    \<and> mats h' n = rotation yaw
    \<and> mats h' (n + 6) = map (place (rotation yaw) [x, y]) (deref h (outlines self))
    \<and> mats h' (n + 7) = map (place (rotation yaw) [x, y]) (deref h (rear_right_wheel self))
    \<and> mats h' (n + 8) = map (place (rotation yaw) [x, y]) (deref h (rear_left_wheel self))
    \<and> mats h' (n + 9) = map (place (rotation yaw) [x, y])
          (map (place (rotation d) (vecs h (fr_wheel_center self))) (deref h (fr_wheel_origin self)))
    \<and> mats h' (n + 10) = map (place (rotation yaw) [x, y])
          (map (place (rotation d) (vecs h (fl_wheel_center self))) (deref h (fl_wheel_origin self)))"
proof -
  define OUT where "OUT = deref h (outlines self)"
  define RR where "RR = deref h (rear_right_wheel self)"
  define RL where "RL = deref h (rear_left_wheel self)"
  define FRO where "FRO = deref h (fr_wheel_origin self)"
  define FLO where "FLO = deref h (fl_wheel_origin self)"
  define frc where "frc = vecs h (fr_wheel_center self)"
  define flc where "flc = vecs h (fl_wheel_center self)"
  define Ry where "Ry = rotation yaw"
  define Rs where "Rs = rotation d"
  define s1 where "s1 = self\<lparr>car_x := Some x, car_y := Some y,
                 yaw_vector := \<lparr>base = n, transposed = False\<rparr>\<rparr>"
  from inv have
    b: "base (outlines self) < n" "base (rear_right_wheel self) < n"
       "base (rear_left_wheel self) < n" "base (fr_wheel_origin self) < n"
       "base (fl_wheel_origin self) < n" "fr_wheel_center self < n" "fl_wheel_center self < n"
    and p: "points OUT" "points RR" "points RL" "points FRO" "points FLO"
    and l: "length frc = 2" "length flc = 2"
    by (auto simp: polygons_ok_def points_def n OUT_def RR_def RL_def FRO_def FLO_def
        frc_def flc_def)
  define m1 where "m1 = (mats h)(n := Ry)"
  define m2 where "m2 = m1(n + 1 := Rs)"
  define m3 where "m3 = m2(n + 2 := FRO)"
  define m4 where "m4 = m3(n + 3 := FLO)"
  define m5 where "m5 = m4(n + 4 := map (\<lambda>row. row_times row Rs) FRO)"
  define m6 where "m6 = m5(n + 5 := map (\<lambda>row. row_times row Rs) FLO)"
  define m7 where "m7 = m6(n + 4 := map (place Rs frc) FRO)"
  define m8 where "m8 = m7(n + 5 := map (place Rs flc) FLO)"
  define m9 where "m9 = m8(n + 6 := map (place Ry [x, y]) OUT)"
  define m10 where "m10 = m9(n + 7 := map (place Ry [x, y]) RR)"
  define m11 where "m11 = m10(n + 8 := map (place Ry [x, y]) RL)"
  define m12 where "m12 = m11(n + 9 := map (place Ry [x, y]) (map (place Rs frc) FRO))"
  define m13 where "m13 = m12(n + 10 := map (place Ry [x, y]) (map (place Rs flc) FLO))"
  note ms = m1_def m2_def m3_def m4_def m5_def m6_def m7_def m8_def m9_def m10_def m11_def
    m12_def m13_def
  define hp where "hp = (\<lambda>m k. h\<lparr>mats := m, next_free := n + k\<rparr>)"
  have hp_simps: "mats (hp m k) = m" "vecs (hp m k) = vecs h" "next_free (hp m k) = n + k"
    "(hp m k)\<lparr>mats := m', next_free := Suc (n + k)\<rparr> = hp m' (Suc k)"
    "(hp m k)\<lparr>mats := m'\<rparr> = hp m' k" for m m' k
    by (simp_all add: hp_def)
  have old: "m13 a = mats h a \<and> m12 a = mats h a \<and> m11 a = mats h a \<and> m10 a = mats h a
      \<and> m9 a = mats h a \<and> m8 a = mats h a \<and> m3 a = mats h a \<and> m2 a = mats h a" if "a < n" for a
    using that by (simp add: ms)
  have Ryaw: "Ry = [[cos yaw, sin yaw], [- sin yaw, cos yaw]]" by (simp add: Ry_def rotation_def)
  have e1: "get_rotation_matrix yaw h = Inr (\<lparr>base = n, transposed = False\<rparr>, hp m1 1)"
    by (simp add: get_rotation_matrix_exec hp_def m1_def n Ry_def)
  have e2: "get_rotation_matrix d (hp m1 1) = Inr (\<lparr>base = n + 1, transposed = False\<rparr>, hp m2 2)"
    by (simp add: get_rotation_matrix_exec hp_def m2_def Rs_def)
  have e3: "np_copy (fr_wheel_origin s1) (hp m2 2) = Inr (\<lparr>base = n + 2, transposed = False\<rparr>, hp m3 3)"
    using old[OF b(4)] by (simp add: np_copy_exec hp_def m3_def FRO_def deref_def s1_def)
  have e4: "np_copy (fl_wheel_origin s1) (hp m3 3) = Inr (\<lparr>base = n + 3, transposed = False\<rparr>, hp m4 4)"
    using old[OF b(5)] by (simp add: np_copy_exec hp_def m4_def FLO_def deref_def s1_def)
  have d5: "np_dot \<lparr>base = n + 2, transposed = False\<rparr> \<lparr>base = n + 1, transposed = False\<rparr> (hp m4 4)
      = Inr (\<lparr>base = n + 4, transposed = False\<rparr>, hp m5 5)"
  proof -
    have "deref (hp m4 4) \<lparr>base = n + 2, transposed = False\<rparr> = FRO"
      and "deref (hp m4 4) \<lparr>base = n + 1, transposed = False\<rparr> = Rs"
      by (simp_all add: deref_def hp_def ms)
    moreover have "list_all (\<lambda>row. length row = length Rs) FRO"
      using p by (simp add: points_def Rs_def rotation_def numeral_2_eq_2)
    ultimately show ?thesis
      using np_dot_exec[of "hp m4 4" "\<lparr>base = n + 2, transposed = False\<rparr>" FRO
          "\<lparr>base = n + 1, transposed = False\<rparr>" Rs]
      by (simp add: hp_def m5_def)
  qed
  have d6: "np_dot \<lparr>base = n + 3, transposed = False\<rparr> \<lparr>base = n + 1, transposed = False\<rparr> (hp m5 5)
      = Inr (\<lparr>base = n + 5, transposed = False\<rparr>, hp m6 6)"
  proof -
    have "deref (hp m5 5) \<lparr>base = n + 3, transposed = False\<rparr> = FLO"
      and "deref (hp m5 5) \<lparr>base = n + 1, transposed = False\<rparr> = Rs"
      by (simp_all add: deref_def hp_def ms)
    moreover have "list_all (\<lambda>row. length row = length Rs) FLO"
      using p by (simp add: points_def Rs_def rotation_def numeral_2_eq_2)
    ultimately show ?thesis
      using np_dot_exec[of "hp m5 5" "\<lparr>base = n + 3, transposed = False\<rparr>" FLO
          "\<lparr>base = n + 1, transposed = False\<rparr>" Rs]
      by (simp add: hp_def m6_def)
  qed
  have i7: "iadd_vec \<lparr>base = n + 4, transposed = False\<rparr> (fr_wheel_center s1) (hp m6 6)
      = Inr ((), hp m7 6)"
  proof -
    have "mats (hp m6 6) (n + 4) = map (\<lambda>row. row_times row Rs) FRO"
      by (simp add: hp_def m5_def m6_def)
    moreover have "vecs (hp m6 6) (fr_wheel_center self) = frc"
      by (simp add: hp_def frc_def)
    moreover have "list_all (\<lambda>row. length row = length frc) (map (\<lambda>row. row_times row Rs) FRO)"
      using l by (simp add: list_all_iff Rs_def length_row_times_rotation)
    ultimately show ?thesis
      using iadd_vec_exec[of "hp m6 6" "n + 4" _ "fr_wheel_center self" frc]
      by (simp add: hp_def m7_def place_def[abs_def] o_def s1_def)
  qed
  have i8: "iadd_vec \<lparr>base = n + 5, transposed = False\<rparr> (fl_wheel_center s1) (hp m7 6)
      = Inr ((), hp m8 6)"
  proof -
    have "mats (hp m7 6) (n + 5) = map (\<lambda>row. row_times row Rs) FLO"
      by (simp add: hp_def m6_def m7_def)
    moreover have "vecs (hp m7 6) (fl_wheel_center self) = flc"
      by (simp add: hp_def flc_def)
    moreover have "list_all (\<lambda>row. length row = length flc) (map (\<lambda>row. row_times row Rs) FLO)"
      using l by (simp add: list_all_iff Rs_def length_row_times_rotation)
    ultimately show ?thesis
      using iadd_vec_exec[of "hp m7 6" "n + 5" _ "fl_wheel_center self" flc]
      by (simp add: hp_def m8_def place_def[abs_def] o_def s1_def)
  qed
  have sx: "car_x s1 = Some x" and sy: "car_y s1 = Some y" by (simp_all add: s1_def)
  have yv: "deref (hp m k) (yaw_vector s1) = [[cos yaw, sin yaw], [- sin yaw, cos yaw]]"
    if "m n = Ry" for m k
    using that by (simp add: deref_def s1_def hp_def Ryaw)
  have t9: "transform s1 (outlines s1) (hp m8 6) = Inr (\<lparr>base = n + 6, transposed = True\<rparr>, hp m9 7)"
  proof -
    have "m8 n = Ry" by (simp add: ms)
    moreover have "deref (hp m8 6) (outlines self) = OUT"
      using old[OF b(1)] by (simp add: deref_def hp_def OUT_def)
    ultimately show ?thesis
      using transform_exec[OF sx sy yv _ p(1), of m8 6 "outlines self"]
      by (simp add: hp_def m9_def Ryaw s1_def)
  qed
  have t10: "transform s1 (rear_right_wheel s1) (hp m9 7) = Inr (\<lparr>base = n + 7, transposed = True\<rparr>, hp m10 8)"
  proof -
    have "m9 n = Ry" by (simp add: ms)
    moreover have "deref (hp m9 7) (rear_right_wheel self) = RR"
      using old[OF b(2)] by (simp add: deref_def hp_def RR_def)
    ultimately show ?thesis
      using transform_exec[OF sx sy yv _ p(2), of m9 7 "rear_right_wheel self"]
      by (simp add: hp_def m10_def Ryaw s1_def)
  qed
  have t11: "transform s1 (rear_left_wheel s1) (hp m10 8) = Inr (\<lparr>base = n + 8, transposed = True\<rparr>, hp m11 9)"
  proof -
    have "m10 n = Ry" by (simp add: ms)
    moreover have "deref (hp m10 8) (rear_left_wheel self) = RL"
      using old[OF b(3)] by (simp add: deref_def hp_def RL_def)
    ultimately show ?thesis
      using transform_exec[OF sx sy yv _ p(3), of m10 8 "rear_left_wheel self"]
      by (simp add: hp_def m11_def Ryaw s1_def)
  qed
  have ne: "FRO \<noteq> []" "FLO \<noteq> []"
    using p(4,5) by (simp_all add: points_def)
  have pf: "points (map (place Rs frc) FRO)" "points (map (place Rs flc) FLO)"
    unfolding Rs_def by (rule points_place[OF ne(1) l(1)], rule points_place[OF ne(2) l(2)])
  have t12: "transform s1 \<lparr>base = n + 4, transposed = False\<rparr> (hp m11 9)
      = Inr (\<lparr>base = n + 9, transposed = True\<rparr>, hp m12 10)"
  proof -
    have "m11 n = Ry" by (simp add: ms)
    moreover have "deref (hp m11 9) \<lparr>base = n + 4, transposed = False\<rparr> = map (place Rs frc) FRO"
      by (simp add: deref_def hp_def ms)
    ultimately show ?thesis
      using transform_exec[OF sx sy yv _ pf(1), of m11 9 "\<lparr>base = n + 4, transposed = False\<rparr>"]
      by (simp add: hp_def m12_def Ryaw)
  qed
  have t13: "transform s1 \<lparr>base = n + 5, transposed = False\<rparr> (hp m12 10)
      = Inr (\<lparr>base = n + 10, transposed = True\<rparr>, hp m13 11)"
  proof -
    have "m12 n = Ry" by (simp add: ms)
    moreover have "deref (hp m12 10) \<lparr>base = n + 5, transposed = False\<rparr> = map (place Rs flc) FLO"
      by (simp add: deref_def hp_def ms)
    ultimately show ?thesis
      using transform_exec[OF sx sy yv _ pf(2), of m12 10 "\<lparr>base = n + 5, transposed = False\<rparr>"]
      by (simp add: hp_def m13_def Ryaw)
  qed
  have run: "plot_car self x_road h =
      Inr (((x, y, \<lparr>base = n + 6, transposed = True\<rparr>, \<lparr>base = n + 9, transposed = True\<rparr>,
             \<lparr>base = n + 7, transposed = True\<rparr>, \<lparr>base = n + 10, transposed = True\<rparr>,
             \<lparr>base = n + 8, transposed = True\<rparr>), s1), hp m13 11)"
    unfolding plot_car_def
    by (simp only: pose sum.case prod.case Let_def py_bind_def py_return_def s1_def[symmetric]
        e1 e2 e3 e4 d5 d6 i7 i8 t9 t10 t11 t12 t13)
  have fin: "next_free (hp m13 11) = n + 11" "mats (hp m13 11) n = Ry"
    "mats (hp m13 11) (n + 6) = map (place Ry [x, y]) OUT"
    "mats (hp m13 11) (n + 7) = map (place Ry [x, y]) RR"
    "mats (hp m13 11) (n + 8) = map (place Ry [x, y]) RL"
    "mats (hp m13 11) (n + 9) = map (place Ry [x, y]) (map (place Rs frc) FRO)"
    "mats (hp m13 11) (n + 10) = map (place Ry [x, y]) (map (place Rs flc) FLO)"
    by (simp_all add: hp_def ms)
  show ?thesis
    unfolding s1_def[symmetric] OUT_def[symmetric] RR_def[symmetric] RL_def[symmetric]
      FRO_def[symmetric] FLO_def[symmetric] frc_def[symmetric] flc_def[symmetric]
      Ry_def[symmetric] Rs_def[symmetric]
    by (rule exI[of _ "hp m13 11"], intro conjI) (fact run fin)+
qed

lemmas shape_defs = outline_shape_def rear_right_shape_def rear_left_shape_def
  front_right_origin_shape_def front_left_origin_shape_def

lemma CarDescription_init_exec:
  "\<exists>h. CarDescription_init (a, b, c, d) h0 =
     Inr (\<lparr>outlines = \<lparr>base = next_free h0 + 2, transposed = False\<rparr>,
           rear_right_wheel = \<lparr>base = next_free h0 + 3, transposed = False\<rparr>,
           rear_left_wheel = \<lparr>base = next_free h0 + 4, transposed = False\<rparr>,
           fr_wheel_center = next_free h0 + 7,
           fl_wheel_center = next_free h0 + 8,
           fr_wheel_origin = \<lparr>base = next_free h0 + 9, transposed = False\<rparr>,
           fl_wheel_origin = \<lparr>base = next_free h0 + 10, transposed = False\<rparr>,
           car_x = None, car_y = None,
           yaw_vector = \<lparr>base = next_free h0 + 11, transposed = False\<rparr>\<rparr>, h)
    \<and> next_free h = next_free h0 + 12
    \<and> mats h (next_free h0 + 2) = outline_shape
    \<and> mats h (next_free h0 + 3) = rear_right_shape
    \<and> mats h (next_free h0 + 4) = rear_left_shape
    \<and> mats h (next_free h0 + 9) = front_right_origin_shape
    \<and> mats h (next_free h0 + 10) = front_left_origin_shape
    \<and> mats h (next_free h0 + 11) = [[a, b], [c, d]]
    \<and> vecs h (next_free h0 + 7) = [2.96, - 0.85]
    \<and> vecs h (next_free h0 + 8) = [2.96, 0.85]
    \<and> (\<forall>k<next_free h0. mats h k = mats h0 k \<and> vecs h k = vecs h0 k)"
  unfolding CarDescription_init_def
  by (simp add: Let_def store_defs numpy_defs get_face_center_def CarParameters_defs shape_defs)

section \<open>The Frenet transform\<close>

text \<open>
  C1.  For every path-relative state \<open>(s, e, mu, v, d)\<close> the transform returns
  \<open>(x, y, v, yaw, d)\<close> with \<open>yaw = mu + (\<pi>/2 + s/r)\<close> and
  \<open>(x, y) = r (cos (s/r), sin (s/r)) + e (cos (\<pi> + s/r), sin (\<pi> + s/r))
  + l_r (cos yaw, sin yaw)\<close>, where \<open>r = 50\<close>; \<open>v\<close> and \<open>d\<close> pass through.
\<close>

theorem frenet_to_cartesian_formula:
  "frenet_to_cartesian self [s, e, mu, v, d] =
     (let r = 50; yaw = mu + (pi / 2 + s / r)
      in Inr (r * cos (s / r) + e * cos (pi + s / r) + CarParameters_l_r * cos yaw,
              r * sin (s / r) + e * sin (pi + s / r) + CarParameters_l_r * sin yaw,
              v, yaw, d))"
  by (simp add: frenet_to_cartesian_def np_scale_def np_iadd_def Let_def)

text \<open>
  C8, as stated, fails.  At \<open>(s, e, mu, v, d) = (0, 0, 0, 0, 0)\<close> the heading is
  \<open>\<pi>/2\<close>, so the offset \<open>l_r\<close> points along the second axis: the position is
  \<open>(50, l_r)\<close>, which is \<open>1.48\<close> away from \<open>(50 + l_r, 0)\<close> in each coordinate.
\<close>

theorem frenet_origin_counterexample:
  "frenet_to_cartesian car0 [0, 0, 0, 0, 0] = Inr (50, CarParameters_l_r, 0, pi / 2, 0)
   \<and> \<bar>50 - (50 + CarParameters_l_r)\<bar> = 1.48 \<and> \<bar>CarParameters_l_r - 0\<bar> = 1.48"
  by (simp add: frenet_to_cartesian_def np_scale_def np_iadd_def Let_def CarParameters_defs)

text \<open>
  C8, amended.  With path radius \<open>50\<close> and the state \<open>(0, 0, 0, 0, 0)\<close> the world
  position returned by the transform is \<open>(r, l_r) = (50, 1.48)\<close> and the heading is
  \<open>\<pi>/2\<close>.
\<close>

theorem frenet_origin:
  "frenet_to_cartesian self [0, 0, 0, 0, 0] = Inr (50, CarParameters_l_r, 0, pi / 2, 0)
   \<and> CarParameters_l_r = 1.48"
  by (simp add: frenet_to_cartesian_def np_scale_def np_iadd_def Let_def CarParameters_defs)

text \<open>
  C10.  The transform is a function of its argument alone: two calls with the same
  argument give the same result on any two instances, whatever their fields hold (so
  also after any sequence of \<^verbatim>\<open>plot_car\<close> calls); the radius is the constant 50
  and no path object is an input.  The function has no store and no instance among its
  results, so it writes neither.
\<close>

theorem frenet_to_cartesian_pure:
  "frenet_to_cartesian self1 x_road = frenet_to_cartesian self2 x_road
   \<and> frenet_to_cartesian self1 [s, e, mu, v, d] =
       Inr (50 * cos (s / 50) + e * cos (pi + s / 50)
              + CarParameters_l_r * cos (mu + (pi / 2 + s / 50)),
            50 * sin (s / 50) + e * sin (pi + s / 50)
              + CarParameters_l_r * sin (mu + (pi / 2 + s / 50)),
            v, mu + (pi / 2 + s / 50), d)"
  by (simp add: frenet_to_cartesian_def np_scale_def np_iadd_def Let_def)

section \<open>Reachable cars\<close>

lemma plot_car_polygons_ok:
  assumes ok: "polygons_ok h self" and run: "plot_car self x_road h = Inr ((res, self'), h')"
  shows "polygons_ok h' self'"
proof -
  obtain x y polys where res: "res = (x, y, polys)" by (cases res) auto
  from plot_car_frame[OF run[unfolded res]] have
    f: "frame_below (next_free h) h h'" and
    s: "self' = self\<lparr>car_x := Some x, car_y := Some y, yaw_vector := yaw_vector self'\<rparr>"
    by auto
  have d: "deref h' r = deref h r" if "base r < next_free h" for r
    using f that by (simp add: frame_below_def deref_def)
  have le: "next_free h \<le> next_free h'" and v: "vecs h' = vecs h"
    using f by (simp_all add: frame_below_def)
  have fields: "outlines self' = outlines self" "rear_right_wheel self' = rear_right_wheel self"
    "rear_left_wheel self' = rear_left_wheel self" "fr_wheel_origin self' = fr_wheel_origin self"
    "fl_wheel_origin self' = fl_wheel_origin self" "fr_wheel_center self' = fr_wheel_center self"
    "fl_wheel_center self' = fl_wheel_center self"
    by (subst s, simp)+
  from ok le show ?thesis
    unfolding polygons_ok_def fields by (auto simp: d v)
qed

lemma reachable_polygons_ok: "reachable h self \<Longrightarrow> polygons_ok h self"
proof (induction rule: reachable.induct)
  case (reachable_init junk h0 self h)
  obtain a b c d where j: "junk = (a, b, c, d)" by (cases junk) auto
  from CarDescription_init_exec[of a b c d h0] reachable_init show ?case
    unfolding j by (auto simp: polygons_ok_def deref_def shape_defs)
next
  case (reachable_plot_car h self x_road res self' h')
  then show ?case by (auto intro: plot_car_polygons_ok)
qed

lemma frenet_to_cartesian_Inr:
  assumes "frenet_to_cartesian self x_road = Inr pose"
  obtains s e mu v d where "x_road = [s, e, mu, v, d]"
  using assms by (auto simp: frenet_to_cartesian_def split: list.splits)

lemma plot_car_Inr:
  assumes "plot_car self x_road h = Inr r"
  obtains s e mu v d where "x_road = [s, e, mu, v, d]"
proof -
  from assms obtain pose where "frenet_to_cartesian self x_road = Inr pose"
    by (auto simp: plot_car_def py_raise_def split: sum.splits)
  then show ?thesis by (rule frenet_to_cartesian_Inr) (rule that)
qed

lemma init0: "CarDescription_init (0, 0, 0, 0) empty_heap = Inr (car0, heap0)"
  using CarDescription_init_exec[of 0 0 0 0 empty_heap]
  by (auto simp: car0_def heap0_def)

lemma car0_reachable: "reachable heap0 car0"
  using init0 by (rule reachable_init)

lemma car0_fields:
  "outlines car0 = \<lparr>base = 2, transposed = False\<rparr>"
  "rear_right_wheel car0 = \<lparr>base = 3, transposed = False\<rparr>"
  "rear_left_wheel car0 = \<lparr>base = 4, transposed = False\<rparr>"
  "fr_wheel_center car0 = 7"
  "fl_wheel_center car0 = 8"
  "fr_wheel_origin car0 = \<lparr>base = 9, transposed = False\<rparr>"
  "fl_wheel_origin car0 = \<lparr>base = 10, transposed = False\<rparr>"
  "car_x car0 = None" "car_y car0 = None"
  using CarDescription_init_exec[of 0 0 0 0 empty_heap]
  unfolding car0_def heap0_def
  by (auto simp: empty_heap_def numeral_2_eq_2)

lemma heap0_contents:
  "next_free heap0 = 12"
  "mats heap0 2 = outline_shape"
  "mats heap0 3 = rear_right_shape"
  "mats heap0 4 = rear_left_shape"
  "mats heap0 9 = front_right_origin_shape"
  "mats heap0 10 = front_left_origin_shape"
  "vecs heap0 7 = [2.96, - 0.85]"
  "vecs heap0 8 = [2.96, 0.85]"
  using CarDescription_init_exec[of 0 0 0 0 empty_heap]
  unfolding car0_def heap0_def
  by (auto simp: empty_heap_def numeral_2_eq_2)

lemma closed_xy_rows:
  assumes "length P = 5" and "hd P = last P"
  shows "closed_xy (coordinate_rows (map f P))"
proof -
  from assms have "P \<noteq> []" by auto
  with assms have "P ! 0 = P ! 4"
    by (simp add: hd_conv_nth last_conv_nth)
  with assms(1) show ?thesis
    by (simp add: closed_xy_def coordinate_rows_def)
qed

lemma deref_result:
  assumes "mats h a = map (place (rotation th) t) P" and "P \<noteq> []" and "length t = 2"
  shows "deref h \<lparr>base = a, transposed = True\<rparr> = coordinate_rows (map (place (rotation th) t) P)"
  using assms transpose_points[OF points_place[of P t th]] by (simp add: deref_def)

lemma pose0: "frenet_to_cartesian car0 [0, 0, 0, 0, 0] = Inr (50, 1.48, 0, pi / 2, 0)"
  by (simp add: frenet_to_cartesian_5 CarParameters_defs)

lemmas eval_defs = car0_fields heap0_contents deref_def shape_defs coordinate_rows_def
  place_def row_times_def rotation_def

lemma plot_car_0:
  "\<exists>h'. plot_car car0 [0, 0, 0, 0, 0] heap0 =
      Inr (((50, 1.48, \<lparr>base = 18, transposed = True\<rparr>, \<lparr>base = 21, transposed = True\<rparr>,
             \<lparr>base = 19, transposed = True\<rparr>, \<lparr>base = 22, transposed = True\<rparr>,
             \<lparr>base = 20, transposed = True\<rparr>),
            car0\<lparr>car_x := Some 50, car_y := Some 1.48,
                 yaw_vector := \<lparr>base = 12, transposed = False\<rparr>\<rparr>), h')"
proof -
  have pose: "frenet_to_cartesian car0 [0, 0, 0, 0, 0] = Inr (50, 1.48, 0, pi / 2, 0)"
    by (simp add: frenet_to_cartesian_5 CarParameters_defs)
  from plot_car_exec[OF reachable_polygons_ok[OF car0_reachable] pose refl]
  show ?thesis by (auto simp: heap0_contents)
qed

section \<open>The render transform\<close>

text \<open>
  C3.  For every state, \<^verbatim>\<open>plot_car\<close> composes the transforms in the order steer
  pivot, body rotation, translation.  Each front wheel polygon, stored relative to its
  face center, is multiplied on the right by \<open>R(steer)\<close> and the face center is added
  back; then every polygon (the outline, the two rear wheels as stored, the two steered
  front wheels) is multiplied on the right by
  \<open>R(yaw) = [[cos, sin], [-sin, cos]]\<close> (row vectors: \<open>point \<cdot> R\<close>) and translated
  by \<open>(x, y)\<close>.  The arrays come back in the order outline, front right, rear right,
  front left, rear left, each as the row of first coordinates and the row of second
  coordinates; the instance keeps \<open>x\<close>, \<open>y\<close> and the matrix \<open>R(yaw)\<close>.
\<close>

theorem plot_car_composition:
  assumes "reachable h self"
  shows "\<exists>x y yaw outl fr rr fl rl self' h'.
      frenet_to_cartesian self [s, e, mu, v, d] = Inr (x, y, v, yaw, d)
    \<and> plot_car self [s, e, mu, v, d] h = Inr (((x, y, outl, fr, rr, fl, rl), self'), h')
    \<and> deref h' outl = coordinate_rows
         (map (place (rotation yaw) [x, y]) (deref h (outlines self)))
    \<and> deref h' rr = coordinate_rows
         (map (place (rotation yaw) [x, y]) (deref h (rear_right_wheel self)))
    \<and> deref h' rl = coordinate_rows
         (map (place (rotation yaw) [x, y]) (deref h (rear_left_wheel self)))
    \<and> deref h' fr = coordinate_rows
         (map (place (rotation yaw) [x, y])
           (map (place (rotation d) (vecs h (fr_wheel_center self)))
             (deref h (fr_wheel_origin self))))
    \<and> deref h' fl = coordinate_rows
         (map (place (rotation yaw) [x, y])
           (map (place (rotation d) (vecs h (fl_wheel_center self)))
             (deref h (fl_wheel_origin self))))
    \<and> car_x self' = Some x \<and> car_y self' = Some y
    \<and> deref h' (yaw_vector self') = rotation yaw"
proof -
  from assms have ok: "polygons_ok h self" by (rule reachable_polygons_ok)
  then have ne: "deref h (outlines self) \<noteq> []" "deref h (rear_right_wheel self) \<noteq> []"
    "deref h (rear_left_wheel self) \<noteq> []" "deref h (fr_wheel_origin self) \<noteq> []"
    "deref h (fl_wheel_origin self) \<noteq> []"
    by (auto simp: polygons_ok_def)
  obtain x y yaw where pose: "frenet_to_cartesian self [s, e, mu, v, d] = Inr (x, y, v, yaw, d)"
    by (simp add: frenet_to_cartesian_5)
  from plot_car_exec[OF ok pose refl] obtain h' where
    run: "plot_car self [s, e, mu, v, d] h =
      Inr (((x, y, \<lparr>base = next_free h + 6, transposed = True\<rparr>,
             \<lparr>base = next_free h + 9, transposed = True\<rparr>,
             \<lparr>base = next_free h + 7, transposed = True\<rparr>,
             \<lparr>base = next_free h + 10, transposed = True\<rparr>,
             \<lparr>base = next_free h + 8, transposed = True\<rparr>),
            self\<lparr>car_x := Some x, car_y := Some y,
                 yaw_vector := \<lparr>base = next_free h, transposed = False\<rparr>\<rparr>), h')"
    and m: "mats h' (next_free h + 6) = map (place (rotation yaw) [x, y]) (deref h (outlines self))"
      "mats h' (next_free h + 7) = map (place (rotation yaw) [x, y]) (deref h (rear_right_wheel self))"
      "mats h' (next_free h + 8) = map (place (rotation yaw) [x, y]) (deref h (rear_left_wheel self))"
      "mats h' (next_free h + 9) = map (place (rotation yaw) [x, y])
          (map (place (rotation d) (vecs h (fr_wheel_center self))) (deref h (fr_wheel_origin self)))"
      "mats h' (next_free h + 10) = map (place (rotation yaw) [x, y])
          (map (place (rotation d) (vecs h (fl_wheel_center self))) (deref h (fl_wheel_origin self)))"
    and yv: "mats h' (next_free h) = rotation yaw"
    by blast
  have xy: "length [x, y] = 2" by simp
  note r = deref_result[OF m(1) ne(1) xy] deref_result[OF m(2) ne(2) xy]
    deref_result[OF m(3) ne(3) xy] deref_result[OF m(4) _ xy] deref_result[OF m(5) _ xy]
  from pose run r ne yv show ?thesis by (simp add: deref_def)
qed

text \<open>
  The statement at the car built in the empty store and the state \<open>(0, 0, 0, 0, 0)\<close>:
  the pose is \<open>(50, 1.48)\<close> with heading \<open>\<pi>/2\<close>, and the outline and the front
  right wheel come out as the numbers below.
\<close>

theorem plot_car_composition_witness:
  "reachable heap0 car0 \<and>
   (\<exists>outl fr rr fl rl self' h'.
      plot_car car0 [0, 0, 0, 0, 0] heap0 = Inr (((50, 1.48, outl, fr, rr, fl, rl), self'), h')
    \<and> deref h' outl = [[49.018, 49.018, 50.982, 50.982, 49.018], [0.475, 5.445, 5.445, 0.475, 0.475]]
    \<and> deref h' fr = [[50.7175, 50.7175, 50.9825, 50.9825, 50.7175],
                      [3.9574, 4.9226, 4.9226, 3.9574, 3.9574]])"
proof -
  from plot_car_composition[OF car0_reachable, of 0 0 0 0 0]
  obtain x y yaw outl fr rr fl rl self' h' where
    p: "frenet_to_cartesian car0 [0, 0, 0, 0, 0] = Inr (x, y, 0, yaw, 0)" and
    run: "plot_car car0 [0, 0, 0, 0, 0] heap0 = Inr (((x, y, outl, fr, rr, fl, rl), self'), h')" and
    o: "deref h' outl = coordinate_rows
         (map (place (rotation yaw) [x, y]) (deref heap0 (outlines car0)))" and
    f: "deref h' fr = coordinate_rows
         (map (place (rotation yaw) [x, y])
           (map (place (rotation 0) (vecs heap0 (fr_wheel_center car0)))
             (deref heap0 (fr_wheel_origin car0))))"
    by blast
  from p have v: "x = 50" "y = 1.48" "yaw = pi / 2" by (simp_all add: pose0)
  have "deref h' outl = [[49.018, 49.018, 50.982, 50.982, 49.018], [0.475, 5.445, 5.445, 0.475, 0.475]]"
    unfolding o v by (simp add: eval_defs)
  moreover have "deref h' fr = [[50.7175, 50.7175, 50.9825, 50.9825, 50.7175],
                      [3.9574, 4.9226, 4.9226, 3.9574, 3.9574]]"
    unfolding f v by (simp add: eval_defs)
  ultimately show ?thesis
    using run car0_reachable unfolding v by blast
qed

text \<open>
  C7.  A call of \<^verbatim>\<open>plot_car\<close> leaves the stored shapes as they were: the outline,
  the two rear wheels, the two origin-relative front wheels and the two face centers
  are the same references to the same contents, and in fact no buffer that existed
  before the call has changed.  Of the instance only \<^verbatim>\<open>x\<close>, \<^verbatim>\<open>y\<close> and the
  \<^verbatim>\<open>yaw_vector\<close> are overwritten.
\<close>

theorem plot_car_keeps_shapes:
  assumes "reachable h self"
    and "plot_car self x_road h = Inr (((x, y, polys), self'), h')"
  shows "self' = self\<lparr>car_x := Some x, car_y := Some y, yaw_vector := yaw_vector self'\<rparr>
    \<and> deref h' (outlines self') = deref h (outlines self)
    \<and> deref h' (rear_right_wheel self') = deref h (rear_right_wheel self)
    \<and> deref h' (rear_left_wheel self') = deref h (rear_left_wheel self)
    \<and> deref h' (fr_wheel_origin self') = deref h (fr_wheel_origin self)
    \<and> deref h' (fl_wheel_origin self') = deref h (fl_wheel_origin self)
    \<and> vecs h' (fr_wheel_center self') = vecs h (fr_wheel_center self)
    \<and> vecs h' (fl_wheel_center self') = vecs h (fl_wheel_center self)
    \<and> frame_below (next_free h) h h'"
proof -
  from assms(1) have ok: "polygons_ok h self" by (rule reachable_polygons_ok)
  from plot_car_frame[OF assms(2)] have
    f: "frame_below (next_free h) h h'" and
    s: "self' = self\<lparr>car_x := Some x, car_y := Some y, yaw_vector := yaw_vector self'\<rparr>"
    by auto
  have d: "deref h' r = deref h r" if "base r < next_free h" for r
    using f that by (simp add: frame_below_def deref_def)
  have v: "vecs h' = vecs h"
    using f by (simp add: frame_below_def)
  have fields: "outlines self' = outlines self" "rear_right_wheel self' = rear_right_wheel self"
    "rear_left_wheel self' = rear_left_wheel self" "fr_wheel_origin self' = fr_wheel_origin self"
    "fl_wheel_origin self' = fl_wheel_origin self" "fr_wheel_center self' = fr_wheel_center self"
    "fl_wheel_center self' = fl_wheel_center self"
    by (subst s, simp)+
  from ok have "base (outlines self) < next_free h" "base (rear_right_wheel self) < next_free h"
    "base (rear_left_wheel self) < next_free h" "base (fr_wheel_origin self) < next_free h"
    "base (fl_wheel_origin self) < next_free h"
    by (simp_all add: polygons_ok_def)
  then show ?thesis
    unfolding fields using s f by (simp add: d v)
qed

text \<open>The statement at the car built in the empty store, for the state \<open>(0, 0, 0, 0, 0)\<close>.\<close>

theorem plot_car_keeps_shapes_witness:
  "\<exists>polys self' h'.
     plot_car car0 [0, 0, 0, 0, 0] heap0 = Inr (((50, 1.48, polys), self'), h')
   \<and> car_x self' = Some 50 \<and> car_y self' = Some 1.48
   \<and> deref h' (outlines self') = outline_shape
   \<and> deref h' (rear_right_wheel self') = rear_right_shape
   \<and> deref h' (rear_left_wheel self') = rear_left_shape
   \<and> deref h' (fr_wheel_origin self') = front_right_origin_shape
   \<and> deref h' (fl_wheel_origin self') = front_left_origin_shape
   \<and> vecs h' (fr_wheel_center self') = [2.96, - 0.85]
   \<and> vecs h' (fl_wheel_center self') = [2.96, 0.85]"
proof -
  from plot_car_0 obtain polys self' h' where
    run: "plot_car car0 [0, 0, 0, 0, 0] heap0 = Inr (((50, 1.48, polys), self'), h')"
    by blast
  note k = plot_car_keeps_shapes[OF car0_reachable run]
  from k have s: "self' = car0\<lparr>car_x := Some 50, car_y := Some 1.48,
      yaw_vector := yaw_vector self'\<rparr>"
    by (rule conjunct1)
  have c: "car_x self' = Some 50" "car_y self' = Some 1.48"
    by (subst s, simp)+
  have e: "deref heap0 (outlines car0) = outline_shape"
    "deref heap0 (rear_right_wheel car0) = rear_right_shape"
    "deref heap0 (rear_left_wheel car0) = rear_left_shape"
    "deref heap0 (fr_wheel_origin car0) = front_right_origin_shape"
    "deref heap0 (fl_wheel_origin car0) = front_left_origin_shape"
    "vecs heap0 (fr_wheel_center car0) = [2.96, - 0.85]"
    "vecs heap0 (fl_wheel_center car0) = [2.96, 0.85]"
    by (simp_all add: deref_def car0_fields heap0_contents)
  from k c have
    "car_x self' = Some 50 \<and> car_y self' = Some 1.48
   \<and> deref h' (outlines self') = outline_shape
   \<and> deref h' (rear_right_wheel self') = rear_right_shape
   \<and> deref h' (rear_left_wheel self') = rear_left_shape
   \<and> deref h' (fr_wheel_origin self') = front_right_origin_shape
   \<and> deref h' (fl_wheel_origin self') = front_left_origin_shape
   \<and> vecs h' (fr_wheel_center self') = [2.96, - 0.85]
   \<and> vecs h' (fl_wheel_center self') = [2.96, 0.85]"
    unfolding e by blast
  with run show ?thesis by blast
qed

text \<open>
  C9.  Each of the five polygons that \<^verbatim>\<open>plot_car\<close> returns is closed: it is an
  array of two rows and five columns, column \<open>i\<close> holding the coordinates \<open>(x, y)\<close>
  of vertex \<open>i\<close>, and the first and the last vertex are the same.
\<close>

theorem plot_car_polygons_closed:
  assumes "reachable h self"
    and "plot_car self x_road h = Inr (((x, y, outl, fr, rr, fl, rl), self'), h')"
  shows "list_all (\<lambda>r. closed_xy (deref h' r)) [outl, fr, rr, fl, rl]"
proof -
  from assms(1) have ok: "polygons_ok h self" by (rule reachable_polygons_ok)
  from assms(2) obtain s e mu v d where xr: "x_road = [s, e, mu, v, d]"
    by (rule plot_car_Inr)
  obtain x' y' yaw where pose: "frenet_to_cartesian self x_road = Inr (x', y', v, yaw, d)"
    by (simp add: xr frenet_to_cartesian_5)
  define n where "n = next_free h"
  from plot_car_exec[OF ok pose n_def] assms(2) have
    refs: "outl = \<lparr>base = n + 6, transposed = True\<rparr>" "fr = \<lparr>base = n + 9, transposed = True\<rparr>"
      "rr = \<lparr>base = n + 7, transposed = True\<rparr>" "fl = \<lparr>base = n + 10, transposed = True\<rparr>"
      "rl = \<lparr>base = n + 8, transposed = True\<rparr>"
    and m: "mats h' (n + 6) = map (place (rotation yaw) [x', y']) (deref h (outlines self))"
      "mats h' (n + 7) = map (place (rotation yaw) [x', y']) (deref h (rear_right_wheel self))"
      "mats h' (n + 8) = map (place (rotation yaw) [x', y']) (deref h (rear_left_wheel self))"
      "mats h' (n + 9) = map (place (rotation yaw) [x', y'])
          (map (place (rotation d) (vecs h (fr_wheel_center self))) (deref h (fr_wheel_origin self)))"
      "mats h' (n + 10) = map (place (rotation yaw) [x', y'])
          (map (place (rotation d) (vecs h (fl_wheel_center self))) (deref h (fl_wheel_origin self)))"
    by auto
  from ok have
    len: "length (deref h (outlines self)) = 5" "length (deref h (rear_right_wheel self)) = 5"
      "length (deref h (rear_left_wheel self)) = 5" "length (deref h (fr_wheel_origin self)) = 5"
      "length (deref h (fl_wheel_origin self)) = 5"
    and cl: "hd (deref h (outlines self)) = last (deref h (outlines self))"
      "hd (deref h (rear_right_wheel self)) = last (deref h (rear_right_wheel self))"
      "hd (deref h (rear_left_wheel self)) = last (deref h (rear_left_wheel self))"
      "hd (deref h (fr_wheel_origin self)) = last (deref h (fr_wheel_origin self))"
      "hd (deref h (fl_wheel_origin self)) = last (deref h (fl_wheel_origin self))"
    by (simp_all add: polygons_ok_def)
  have ne: "P \<noteq> []" if "length P = 5" for P :: "real list list"
    using that by auto
  have xy: "length [x', y'] = 2" by simp
  have "closed_xy (deref h' outl)"
    unfolding refs deref_result[OF m(1) ne[OF len(1)] xy]
    by (rule closed_xy_rows[OF len(1) cl(1)])
  moreover have "closed_xy (deref h' rr)"
    unfolding refs deref_result[OF m(2) ne[OF len(2)] xy]
    by (rule closed_xy_rows[OF len(2) cl(2)])
  moreover have "closed_xy (deref h' rl)"
    unfolding refs deref_result[OF m(3) ne[OF len(3)] xy]
    by (rule closed_xy_rows[OF len(3) cl(3)])
  moreover have "closed_xy (deref h' fr)"
  proof -
    have "deref h' fr = coordinate_rows (map (place (rotation yaw) [x', y'] \<circ>
        place (rotation d) (vecs h (fr_wheel_center self))) (deref h (fr_wheel_origin self)))"
      unfolding refs using deref_result[OF m(4) _ xy] ne[OF len(4)] by simp
    then show ?thesis by (simp only: closed_xy_rows[OF len(4) cl(4)])
  qed
  moreover have "closed_xy (deref h' fl)"
  proof -
    have "deref h' fl = coordinate_rows (map (place (rotation yaw) [x', y'] \<circ>
        place (rotation d) (vecs h (fl_wheel_center self))) (deref h (fl_wheel_origin self)))"
      unfolding refs using deref_result[OF m(5) _ xy] ne[OF len(5)] by simp
    then show ?thesis by (simp only: closed_xy_rows[OF len(5) cl(5)])
  qed
  ultimately show ?thesis by simp
qed

text \<open>The statement at the car built in the empty store, for the state \<open>(0, 0, 0, 0, 0)\<close>.\<close>

theorem plot_car_polygons_closed_witness:
  "\<exists>outl fr rr fl rl self' h'.
     plot_car car0 [0, 0, 0, 0, 0] heap0 = Inr (((50, 1.48, outl, fr, rr, fl, rl), self'), h')
   \<and> closed_xy (deref h' outl) \<and> closed_xy (deref h' fr) \<and> closed_xy (deref h' rr)
   \<and> closed_xy (deref h' fl) \<and> closed_xy (deref h' rl)"
proof -
  from plot_car_0 obtain outl fr rr fl rl self' h' where
    run: "plot_car car0 [0, 0, 0, 0, 0] heap0 = Inr (((50, 1.48, outl, fr, rr, fl, rl), self'), h')"
    by blast
  from plot_car_polygons_closed[OF car0_reachable run] run show ?thesis
    by auto
qed

section \<open>Resampling: chord lengths, knots and the constructor's checks\<close>

lemma np_ediff1d_simps [simp]:
  "np_ediff1d [] = []"
  "np_ediff1d [a] = []"
  "np_ediff1d (a # b # as) = (b - a) # np_ediff1d (b # as)"
  by (simp_all add: np_ediff1d_def)

lemma length_np_ediff1d [simp]: "length (np_ediff1d a) = length a - 1"
  by (simp add: np_ediff1d_def)

lemma chords_pos_iff:
  "length x = length y \<Longrightarrow>
     list_all (\<lambda>h. 0 < h) (np_hypot (np_ediff1d x) (np_ediff1d y)) \<longleftrightarrow> distinct_adj (zip x y)"
proof (induction x y rule: list_induct2)
  case Nil
  then show ?case by (simp add: np_hypot_def)
next
  case (Cons a x b y)
  show ?case
  proof (cases x)
    case Nil
    with Cons show ?thesis by (simp add: np_hypot_def)
  next
    case (Cons a' x')
    with Cons.hyps obtain b' y' where y: "y = b' # y'" by (cases y) auto
    from Cons.IH show ?thesis
      unfolding Cons y by (auto simp: np_hypot_def sum_power2_gt_zero_iff)
  qed
qed

lemma np_ediff1d_cumsum: "np_ediff1d (acc # cumsum_from acc hs) = hs"
  by (induction hs arbitrary: acc) simp_all

lemma last_cumsum: "last (acc # cumsum_from acc hs) = acc + sum_list hs"
  by (induction hs arbitrary: acc) (simp_all add: algebra_simps)

lemma length_cumsum_from [simp]: "length (cumsum_from acc hs) = length hs"
  by (induction hs arbitrary: acc) simp_all

lemma length_np_hypot [simp]: "length (np_hypot a b) = min (length a) (length b)"
  by (simp add: np_hypot_def)

lemma distance_props:
  assumes "length x = length y"
  shows "length ([0] @ np_cumsum (np_hypot (np_ediff1d x) (np_ediff1d y))) = max 1 (length x)"
    and "list_all (\<lambda>dx. 0 < dx) (np_ediff1d ([0] @ np_cumsum (np_hypot (np_ediff1d x) (np_ediff1d y))))
      \<longleftrightarrow> distinct_adj (zip x y)"
    and "last ([0] @ np_cumsum (np_hypot (np_ediff1d x) (np_ediff1d y))) = chord_length x y"
proof -
  show "length ([0] @ np_cumsum (np_hypot (np_ediff1d x) (np_ediff1d y))) = max 1 (length x)"
    using assms by (cases x) (simp_all add: np_cumsum_def)
  show "list_all (\<lambda>dx. 0 < dx) (np_ediff1d ([0] @ np_cumsum (np_hypot (np_ediff1d x) (np_ediff1d y))))
      \<longleftrightarrow> distinct_adj (zip x y)"
    using chords_pos_iff[OF assms] by (simp add: np_cumsum_def np_ediff1d_cumsum)
  show "last ([0] @ np_cumsum (np_hypot (np_ediff1d x) (np_ediff1d y))) = chord_length x y"
    using last_cumsum[of 0] by (simp add: np_cumsum_def chord_length_def)
qed

lemma CubicSpline_few:
  assumes "length x = length y" and "length x < 2"
  shows "CubicSpline fit ([0] @ np_cumsum (np_hypot (np_ediff1d x) (np_ediff1d y))) (zip x y) bc_type
     = Inl ''`x` must contain at least 2 elements.''"
proof -
  have "length ([0] @ np_cumsum (np_hypot (np_ediff1d x) (np_ediff1d y))) < 2"
    unfolding distance_props(1)[OF assms(1)] using assms(2) by simp
  then show ?thesis
    unfolding CubicSpline_def by (rule if_P)
qed

lemma not_distinct_adj_length: "\<not> distinct_adj xs \<Longrightarrow> 2 \<le> length xs"
  by (cases xs; cases "tl xs") auto

lemma CubicSpline_duplicate:
  assumes "length x = length y" and "\<not> distinct_adj (zip x y)"
  shows "CubicSpline fit ([0] @ np_cumsum (np_hypot (np_ediff1d x) (np_ediff1d y))) (zip x y) bc_type
     = Inl ''`x` must be strictly increasing sequence.''"
proof -
  define distance where "distance = [0] @ np_cumsum (np_hypot (np_ediff1d x) (np_ediff1d y))"
  from not_distinct_adj_length[OF assms(2)] assms(1) have l: "2 \<le> length x" by simp
  have 1: "\<not> length distance < 2"
    unfolding distance_def distance_props(1)[OF assms(1)] using l by simp
  have 2: "\<not> length distance \<noteq> length (zip x y)"
    unfolding distance_def distance_props(1)[OF assms(1)] using l assms(1) by simp
  have 3: "\<not> list_all (\<lambda>dx. 0 < dx) (np_ediff1d distance)"
    unfolding distance_def distance_props(2)[OF assms(1)] by (rule assms(2))
  show ?thesis
    unfolding CubicSpline_def distance_def[symmetric]
    by (simp only: 1 2 3 if_False if_True simp_thms)
qed

lemma CubicSpline_ok:
  assumes "length x = length y" and "2 \<le> length x" and "distinct_adj (zip x y)"
    and "bc_type \<in> {''natural'', ''clamped'', ''not-a-knot''}"
  shows "CubicSpline fit ([0] @ np_cumsum (np_hypot (np_ediff1d x) (np_ediff1d y))) (zip x y) bc_type
     = Inr (fit ([0] @ np_cumsum (np_hypot (np_ediff1d x) (np_ediff1d y))) (zip x y) bc_type)"
proof -
  define distance where "distance = [0] @ np_cumsum (np_hypot (np_ediff1d x) (np_ediff1d y))"
  have 1: "\<not> length distance < 2"
    unfolding distance_def distance_props(1)[OF assms(1)] using assms(2) by simp
  have 2: "\<not> length distance \<noteq> length (zip x y)"
    unfolding distance_def distance_props(1)[OF assms(1)] using assms(1,2) by simp
  have 3: "list_all (\<lambda>dx. 0 < dx) (np_ediff1d distance)"
    unfolding distance_def distance_props(2)[OF assms(1)] by (rule assms(3))
  have 4: "bc_type \<noteq> ''periodic''"
    using assms(4) by auto
  have 5: "\<not> bc_type \<notin> set [''clamped'', ''natural'', ''not-a-knot'', ''periodic'']"
    using assms(4) by auto
  show ?thesis
    unfolding CubicSpline_def distance_def[symmetric]
    by (simp only: 1 2 3 4 5 if_False if_True simp_thms)
qed

lemma initialise_cubic_spline_eq:
  assumes "length x = length y"
  shows "initialise_cubic_spline fit x y ds bc_type =
     (case np_arange 0 (chord_length x y) ds of
        Inl err \<Rightarrow> Inl err
      | Inr s \<Rightarrow>
          (case CubicSpline fit ([0] @ np_cumsum (np_hypot (np_ediff1d x) (np_ediff1d y)))
                  (zip x y) bc_type of
             Inl e \<Rightarrow> Inl (ValueError (e @ duplicate_hint))
           | Inr cs \<Rightarrow> Inr (cs, s)))"
proof -
  have 1: "\<not> (length (np_ediff1d x) \<noteq> length (np_ediff1d y) \<and> length (np_ediff1d x) \<noteq> 1
            \<and> length (np_ediff1d y) \<noteq> 1)"
    using assms by simp
  have 2: "\<not> length x \<noteq> length y"
    using assms by simp
  show ?thesis
    unfolding initialise_cubic_spline_def Let_def duplicate_hint_def
      distance_props(3)[OF assms, symmetric]
    by (simp only: 1 2 if_False)
qed

lemma np_arange_0:
  "ds \<noteq> 0 \<Longrightarrow> np_arange 0 L ds = Inr (map (\<lambda>i. real i * ds) [0..<nat \<lceil>L / ds\<rceil>])"
  by (simp add: np_arange_def)

lemma initialise_cubic_spline_ok:
  assumes "length x = length y" and "2 \<le> length x" and "distinct_adj (zip x y)"
    and "bc_type \<in> {''natural'', ''clamped'', ''not-a-knot''}" and "ds \<noteq> 0"
  shows "initialise_cubic_spline fit x y ds bc_type =
     Inr (fit ([0] @ np_cumsum (np_hypot (np_ediff1d x) (np_ediff1d y))) (zip x y) bc_type,
          map (\<lambda>i. real i * ds) [0..<nat \<lceil>chord_length x y / ds\<rceil>])"
  unfolding initialise_cubic_spline_eq[OF assms(1)] np_arange_0[OF assms(5)]
    CubicSpline_ok[OF assms(1-4)]
  by simp

lemma initialise_cubic_spline_duplicate:
  assumes "length x = length y" and "\<not> distinct_adj (zip x y)" and "ds \<noteq> 0"
  shows "initialise_cubic_spline fit x y ds bc_type =
     Inl (ValueError (''`x` must be strictly increasing sequence.'' @ duplicate_hint))"
  unfolding initialise_cubic_spline_eq[OF assms(1)] np_arange_0[OF assms(3)]
    CubicSpline_duplicate[OF assms(1,2)]
  by (simp only: sum.case)

lemma generate_cubic_spline_Inr:
  assumes "initialise_cubic_spline fit x y ds bc_type = Inr (cs, s)"
  shows "\<exists>cx cy yaw k. generate_cubic_spline fit x y ds bc_type = Inr (cx, cy, yaw, k)
    \<and> length cx = length s \<and> length cy = length s \<and> length yaw = length s \<and> length k = length s
    \<and> (\<forall>i<length s.
          cx ! i = fst (cs 0 (s ! i)) \<and> cy ! i = snd (cs 0 (s ! i))
        \<and> yaw ! i = np_arctan2 (snd (cs 1 (s ! i))) (fst (cs 1 (s ! i)))
        \<and> k ! i = np_divide
             (snd (cs 2 (s ! i)) * fst (cs 1 (s ! i)) - fst (cs 2 (s ! i)) * snd (cs 1 (s ! i)))
             ((fst (cs 1 (s ! i)) * fst (cs 1 (s ! i)) + snd (cs 1 (s ! i)) * snd (cs 1 (s ! i))) powr 1.5))"
  unfolding generate_cubic_spline_def assms
  by (simp add: Let_def)

lemma generate_cubic_spline_Inl:
  assumes "initialise_cubic_spline fit x y ds bc_type = Inl err"
  shows "generate_cubic_spline fit x y ds bc_type = Inl err"
  unfolding generate_cubic_spline_def assms by simp

lemma initialise_cubic_spline_ragged:
  assumes "length x \<noteq> length y"
  shows "\<exists>err. initialise_cubic_spline fit x y ds bc_type = Inl err"
  unfolding initialise_cubic_spline_def Let_def
  using assms by (simp only: if_True simp_thms split: if_splits) blast

lemma np_arange_zero_step: "\<exists>err. np_arange start stop 0 = Inl err"
  by (simp add: np_arange_def)

subsection \<open>The angle function\<close>

text \<open>
  \<open>np_arctan2 y x\<close> is the polar angle of the point \<open>(x, y)\<close>: it lies in
  \<open>(-\<pi>, \<pi>]\<close>, and the point is its distance from the origin times the unit vector
  of that angle.
\<close>

lemma np_arctan2_range: "- pi < np_arctan2 y x \<and> np_arctan2 y x \<le> pi"
proof -
  have b: "- (pi / 2) < arctan (y / x)" "arctan (y / x) < pi / 2"
    by (rule arctan_lbound, rule arctan_ubound)
  have neg: "arctan (y / x) \<le> 0" if "x < 0" "0 \<le> y"
    using that by (simp add: arctan_le_zero_iff divide_nonneg_neg)
  have pos: "0 < arctan (y / x)" if "x < 0" "y < 0"
    using that by (simp add: zero_less_arctan_iff divide_neg_neg)
  show ?thesis
    unfolding np_arctan2_def using b neg pos pi_gt_zero
    by (auto simp: not_less)
qed

lemma np_arctan2_polar:
  assumes "x \<noteq> 0 \<or> y \<noteq> 0"
  shows "sqrt (x\<^sup>2 + y\<^sup>2) * cos (np_arctan2 y x) = x"
    and "sqrt (x\<^sup>2 + y\<^sup>2) * sin (np_arctan2 y x) = y"
proof -
  have r: "sqrt (x\<^sup>2 + y\<^sup>2) = \<bar>x\<bar> * sqrt (1 + (y / x)\<^sup>2)" if "x \<noteq> 0"
  proof -
    have "x\<^sup>2 + y\<^sup>2 = x\<^sup>2 * (1 + (y / x)\<^sup>2)"
      using that by (simp add: field_simps power2_eq_square)
    then show ?thesis by (simp add: real_sqrt_mult)
  qed
  have p: "0 < sqrt (1 + (y / x)\<^sup>2)"
    by (simp add: add_pos_nonneg)
  show "sqrt (x\<^sup>2 + y\<^sup>2) * cos (np_arctan2 y x) = x"
  proof (cases "x = 0")
    case True
    with assms show ?thesis by (auto simp: np_arctan2_def)
  next
    case False
    with p show ?thesis
      by (auto simp: np_arctan2_def r cos_arctan)
  qed
  show "sqrt (x\<^sup>2 + y\<^sup>2) * sin (np_arctan2 y x) = y"
  proof (cases "x = 0")
    case True
    with assms show ?thesis by (auto simp: np_arctan2_def)
  next
    case False
    with p show ?thesis
      by (auto simp: np_arctan2_def r sin_arctan)
  qed
qed

subsection \<open>A worked example: the waypoints \<open>(0, 0)\<close> and \<open>(3, 4)\<close>\<close>

lemma chord_length_nonneg: "0 \<le> chord_length x y"
  unfolding chord_length_def np_hypot_def
  by (rule sum_list_nonneg) auto

lemma sqrt_25: "sqrt 25 = 5"
  using real_sqrt_abs[of 5] by simp

lemma chord_length_3_4: "chord_length [0, 3] [0, 4] = 5"
  by (simp add: chord_length_def np_hypot_def sqrt_25)

lemma upt_3: "[0..<3] = [0, 1, 2]"
  by (simp add: upt_rec)

lemma initialise_3_4:
  "initialise_cubic_spline line_fit [0, 3] [0, 4] 2 ''natural'' =
     Inr (line_fit [0, 5] [(0, 0), (3, 4)] ''natural'', [0, 2, 4])"
proof -
  have "initialise_cubic_spline line_fit [0, 3] [0, 4] 2 ''natural'' =
     Inr (line_fit ([0] @ np_cumsum (np_hypot (np_ediff1d [0, 3]) (np_ediff1d [0, 4])))
            (zip [0, 3] [0, 4]) ''natural'',
          map (\<lambda>i. real i * 2) [0..<nat \<lceil>chord_length [0, 3] [0, 4] / 2\<rceil>])"
    by (rule initialise_cubic_spline_ok) simp_all
  then show ?thesis
    by (simp add: chord_length_3_4 upt_3 np_cumsum_def np_hypot_def sqrt_25)
qed

lemma line_fit_3_4:
  "line_fit [0, 5] [(0, 0), (3, 4)] ''natural'' 0 t = (t * 3 / 5, t * 4 / 5)"
  "line_fit [0, 5] [(0, 0), (3, 4)] ''natural'' (Suc 0) t = (3 / 5, 4 / 5)"
  "line_fit [0, 5] [(0, 0), (3, 4)] ''natural'' 2 t = (0, 0)"
  by (simp_all add: line_fit_def Let_def)

lemma generate_3_4:
  "generate_cubic_spline line_fit [0, 3] [0, 4] 2 ''natural'' =
     Inr ([0, 6 / 5, 12 / 5], [0, 8 / 5, 16 / 5],
          [arctan (4 / 3), arctan (4 / 3), arctan (4 / 3)], [Some 0, Some 0, Some 0])"
  unfolding generate_cubic_spline_def initialise_3_4
  by (simp add: Let_def line_fit_3_4 np_arctan2_def np_divide_def)

section \<open>Curve construction\<close>

text \<open>
  C2.  At every sample index \<open>i\<close> of a constructed curve, with \<open>(dx, dy)\<close> and
  \<open>(ddx, ddy)\<close> the first and second derivative of the fitted interpolant at sample
  \<open>i\<close>, the heading is \<open>yaw[i] = atan2(dy, dx)\<close> and the curvature is
  \<open>k[i] = (ddy dx - ddx dy) / (dx\<^sup>2 + dy\<^sup>2)\<^sup>1\<^sup>.\<^sup>5\<close>.  Where the tangent vanishes the
  quotient has no real value (NumPy stores \<^verbatim>\<open>nan\<close> there); the model has \<open>None\<close>.
\<close>

theorem heading_and_curvature:
  assumes "initialise_cubic_spline fit x y ds bc_type = Inr (cs, s)"
    and "i < length s"
    and "cs 1 (s ! i) = (dx, dy)" and "cs 2 (s ! i) = (ddx, ddy)"
  shows "\<exists>cx cy yaw k. generate_cubic_spline fit x y ds bc_type = Inr (cx, cy, yaw, k)
    \<and> i < length yaw \<and> i < length k
    \<and> yaw ! i = np_arctan2 dy dx
    \<and> k ! i = (if dx = 0 \<and> dy = 0 then None
               else Some ((ddy * dx - ddx * dy) / (dx\<^sup>2 + dy\<^sup>2) powr 1.5))"
proof -
  from generate_cubic_spline_Inr[OF assms(1)] obtain cx cy yaw k where
    g: "generate_cubic_spline fit x y ds bc_type = Inr (cx, cy, yaw, k)"
    and l: "length yaw = length s" "length k = length s"
    and v: "\<forall>i<length s.
          cx ! i = fst (cs 0 (s ! i)) \<and> cy ! i = snd (cs 0 (s ! i))
        \<and> yaw ! i = np_arctan2 (snd (cs 1 (s ! i))) (fst (cs 1 (s ! i)))
        \<and> k ! i = np_divide
             (snd (cs 2 (s ! i)) * fst (cs 1 (s ! i)) - fst (cs 2 (s ! i)) * snd (cs 1 (s ! i)))
             ((fst (cs 1 (s ! i)) * fst (cs 1 (s ! i)) + snd (cs 1 (s ! i)) * snd (cs 1 (s ! i))) powr 1.5)"
    by blast
  from v assms(2) have
    y: "yaw ! i = np_arctan2 (snd (cs 1 (s ! i))) (fst (cs 1 (s ! i)))" and
    k: "k ! i = np_divide
             (snd (cs 2 (s ! i)) * fst (cs 1 (s ! i)) - fst (cs 2 (s ! i)) * snd (cs 1 (s ! i)))
             ((fst (cs 1 (s ! i)) * fst (cs 1 (s ! i)) + snd (cs 1 (s ! i)) * snd (cs 1 (s ! i))) powr 1.5)"
    by blast+
  have z: "dx * dx + dy * dy = 0 \<longleftrightarrow> dx = 0 \<and> dy = 0"
    using sum_power2_eq_zero_iff[of dx dy] by (simp add: power2_eq_square)
  have "k ! i = (if dx = 0 \<and> dy = 0 then None
               else Some ((ddy * dx - ddx * dy) / (dx\<^sup>2 + dy\<^sup>2) powr 1.5))"
    unfolding k assms(3,4) np_divide_def
    by (simp add: z power2_eq_square)
  with g l y assms(2,3) show ?thesis by simp
qed

text \<open>
  The statement for the waypoints \<open>(0, 0)\<close>, \<open>(3, 4)\<close> resampled at interval 2, at
  the second sample.
\<close>

theorem heading_and_curvature_witness:
  "\<exists>cs s cx cy yaw k.
     initialise_cubic_spline line_fit [0, 3] [0, 4] 2 ''natural'' = Inr (cs, s)
   \<and> 1 < length s \<and> cs 1 (s ! 1) = (3 / 5, 4 / 5) \<and> cs 2 (s ! 1) = (0, 0)
   \<and> generate_cubic_spline line_fit [0, 3] [0, 4] 2 ''natural'' = Inr (cx, cy, yaw, k)
   \<and> yaw ! 1 = np_arctan2 (4 / 5) (3 / 5) \<and> k ! 1 = Some 0"
proof -
  have "(1::nat) < length [0, 2, 4 :: real]" by simp
  from heading_and_curvature[OF initialise_3_4 this, of "3 / 5" "4 / 5" 0 0]
  show ?thesis
    by (auto simp: line_fit_3_4 initialise_3_4)
qed

text \<open>
  C4, as stated, fails.  The waypoints \<open>(0, 0)\<close> and \<open>(3, 4)\<close> have chord length 5;
  resampled at interval 2 they give the three parameters \<open>0, 2, 4\<close> and arrays of
  length 3, while \<open>\<lfloor>5 / 2\<rfloor> = 2\<close>.
\<close>

theorem resample_length_counterexample:
  "generate_cubic_spline line_fit [0, 3] [0, 4] 2 ''natural'' =
     Inr ([0, 6 / 5, 12 / 5], [0, 8 / 5, 16 / 5],
          [arctan (4 / 3), arctan (4 / 3), arctan (4 / 3)], [Some 0, Some 0, Some 0])
   \<and> chord_length [0, 3] [0, 4] = 5 \<and> (2::real) < 5
   \<and> nat \<lfloor>chord_length [0, 3] [0, 4] / 2\<rfloor> = 2
   \<and> length [0, 6 / 5, 12 / 5 :: real] = 3"
  by (simp add: generate_3_4 chord_length_3_4)

text \<open>
  C4, amended.  Whenever curve construction returns, the four arrays have the same
  length: the number of resample parameters \<open>s\<close> that \<^verbatim>\<open>np.arange\<close> produced, with
  \<open>x[i], y[i]\<close> the interpolant at \<open>s[i]\<close>.  That number is not
  \<open>\<lfloor>total_chord_length / ds\<rfloor>\<close> in general, as the example above shows; the code
  counts with the rounded quotient, and no formula in exact arithmetic is stated for it.
\<close>

theorem resampled_arrays_same_length:
  assumes "initialise_cubic_spline fit x y ds bc_type = Inr (cs, s)"
  shows "\<exists>cx cy yaw k. generate_cubic_spline fit x y ds bc_type = Inr (cx, cy, yaw, k)
    \<and> length cx = length s \<and> length cy = length s
    \<and> length yaw = length s \<and> length k = length s
    \<and> cx = map (\<lambda>t. fst (cs 0 t)) s \<and> cy = map (\<lambda>t. snd (cs 0 t)) s"
  unfolding generate_cubic_spline_def assms
  by (simp add: Let_def)

text \<open>
  The statement for the waypoints \<open>(0, 0)\<close>, \<open>(3, 4)\<close> and the interval 2, where
  every number involved is exact in double precision as well.
\<close>

theorem resampled_arrays_same_length_witness:
  "\<exists>cs cx cy yaw k.
      initialise_cubic_spline line_fit [0, 3] [0, 4] 2 ''natural'' = Inr (cs, [0, 2, 4])
    \<and> generate_cubic_spline line_fit [0, 3] [0, 4] 2 ''natural'' = Inr (cx, cy, yaw, k)
    \<and> length cx = 3 \<and> length cy = 3 \<and> length yaw = 3 \<and> length k = 3
    \<and> cx = [0, 6 / 5, 12 / 5] \<and> cy = [0, 8 / 5, 16 / 5]"
proof -
  from resampled_arrays_same_length[OF initialise_3_4]
  obtain cx cy yaw k where
    g: "generate_cubic_spline line_fit [0, 3] [0, 4] 2 ''natural'' = Inr (cx, cy, yaw, k)"
    and l: "length cx = length [0, 2, 4 :: real]" "length cy = length [0, 2, 4 :: real]"
      "length yaw = length [0, 2, 4 :: real]" "length k = length [0, 2, 4 :: real]"
    and v: "cx = map (\<lambda>t. fst (line_fit [0, 5] [(0, 0), (3, 4)] ''natural'' 0 t)) [0, 2, 4]"
      "cy = map (\<lambda>t. snd (line_fit [0, 5] [(0, 0), (3, 4)] ''natural'' 0 t)) [0, 2, 4]"
    by blast
  from v have "cx = [0, 6 / 5, 12 / 5]" "cy = [0, 8 / 5, 16 / 5]"
    by (simp_all add: line_fit_3_4)
  with g l initialise_3_4 show ?thesis by simp
qed

text \<open>
  C5.  A waypoint list with two identical consecutive points makes curve construction
  end in an error, whatever the interval: no array is returned.  For every nonzero
  interval the error is a \<^verbatim>\<open>ValueError\<close> whose message ends with the hint at
  consecutive duplicates.  (A zero interval fails earlier, in \<^verbatim>\<open>np.arange\<close>.)
\<close>

theorem duplicate_waypoints_rejected:
  assumes "length x = length y" and "\<not> distinct_adj (zip x y)"
  shows "(\<exists>err. generate_cubic_spline fit x y ds bc_type = Inl err)
    \<and> (ds \<noteq> 0 \<longrightarrow> (\<exists>msg. generate_cubic_spline fit x y ds bc_type =
     Inl (ValueError (msg @ '' If you are getting a sequence error, do check if your input dataset contains consecutive duplicate(s).''))))"
proof (cases "ds = 0")
  case True
  with np_arange_zero_step[of 0 "chord_length x y"]
  have "\<exists>err. initialise_cubic_spline fit x y ds bc_type = Inl err"
    unfolding initialise_cubic_spline_eq[OF assms(1)] by auto
  with True show ?thesis
    by (auto dest: generate_cubic_spline_Inl)
next
  case False
  from generate_cubic_spline_Inl[OF initialise_cubic_spline_duplicate[OF assms False]]
  show ?thesis
    unfolding duplicate_hint_def by blast
qed

text \<open>
  The statement for the waypoints \<open>(0, 0)\<close>, \<open>(1, 0)\<close>, \<open>(1, 0)\<close>, at the intervals
  \<open>0.05\<close> and \<open>0\<close>.
\<close>

theorem duplicate_waypoints_rejected_witness:
  "length [0, 1, 1 :: real] = length [0, 0, 0 :: real]
   \<and> \<not> distinct_adj (zip [0, 1, 1 :: real] [0, 0, 0 :: real])
   \<and> (\<exists>msg. generate_cubic_spline line_fit [0, 1, 1] [0, 0, 0] 0.05 ''natural'' =
     Inl (ValueError (msg @ '' If you are getting a sequence error, do check if your input dataset contains consecutive duplicate(s).'')))
   \<and> (\<exists>err. generate_cubic_spline line_fit [0, 1, 1] [0, 0, 0] 0 ''natural'' = Inl err)"
proof -
  have 1: "length [0, 1, 1 :: real] = length [0, 0, 0 :: real]" by simp
  have 2: "\<not> distinct_adj (zip [0, 1, 1 :: real] [0, 0, 0 :: real])" by simp
  from duplicate_waypoints_rejected[OF 1 2, of line_fit "0.05" "''natural''"]
  have a: "\<exists>msg. generate_cubic_spline line_fit [0, 1, 1] [0, 0, 0] 0.05 ''natural'' =
     Inl (ValueError (msg @ '' If you are getting a sequence error, do check if your input dataset contains consecutive duplicate(s).''))"
    by simp
  from duplicate_waypoints_rejected[OF 1 2, of line_fit 0 "''natural''"]
  have b: "\<exists>err. generate_cubic_spline line_fit [0, 1, 1] [0, 0, 0] 0 ''natural'' = Inl err"
    by blast
  from 1 2 a b show ?thesis by blast
qed

text \<open>
  C6, as stated, fails.  A negative interval is not rejected: with the valid waypoints
  \<open>(0, 0)\<close>, \<open>(3, 4)\<close> and \<open>ds = -1\<close> the construction returns four empty arrays.
\<close>

theorem negative_interval_counterexample:
  "generate_cubic_spline line_fit [0, 3] [0, 4] (- 1) ''natural'' = Inr ([], [], [], [])"
proof -
  have "initialise_cubic_spline line_fit [0, 3] [0, 4] (- 1) ''natural'' =
     Inr (line_fit ([0] @ np_cumsum (np_hypot (np_ediff1d [0, 3]) (np_ediff1d [0, 4])))
            (zip [0, 3] [0, 4]) ''natural'',
          map (\<lambda>i. real i * (- 1)) [0..<nat \<lceil>chord_length [0, 3] [0, 4] / (- 1)\<rceil>])"
    by (rule initialise_cubic_spline_ok) simp_all
  then show ?thesis
    unfolding generate_cubic_spline_def by (simp add: chord_length_3_4 Let_def)
qed

text \<open>
  C6, amended.  With a zero interval, or with fewer than two waypoints, curve
  construction ends in an error and returns no array.  With a negative interval and
  otherwise valid input it does not fail: it returns four empty arrays.
\<close>

theorem malformed_configuration:
  "(ds = 0 \<or> length x < 2 \<or> length y < 2 \<longrightarrow>
      (\<exists>err. generate_cubic_spline fit x y ds bc_type = Inl err))
   \<and> (ds < 0 \<and> length x = length y \<and> 2 \<le> length x \<and> distinct_adj (zip x y)
        \<and> bc_type \<in> {''natural'', ''clamped'', ''not-a-knot''} \<longrightarrow>
      generate_cubic_spline fit x y ds bc_type = Inr ([], [], [], []))"
proof (intro conjI impI)
  assume bad: "ds = 0 \<or> length x < 2 \<or> length y < 2"
  have "\<exists>err. initialise_cubic_spline fit x y ds bc_type = Inl err"
  proof (cases "length x = length y")
    case False
    then show ?thesis by (rule initialise_cubic_spline_ragged)
  next
    case True
    show ?thesis
    proof (cases "ds = 0")
      case True
      with np_arange_zero_step[of 0 "chord_length x y"] show ?thesis
        unfolding initialise_cubic_spline_eq[OF \<open>length x = length y\<close>] by auto
    next
      case False
      with bad True have few: "length x < 2" by auto
      show ?thesis
        unfolding initialise_cubic_spline_eq[OF True] np_arange_0[OF False]
          CubicSpline_few[OF True few]
        by simp
    qed
  qed
  then show "\<exists>err. generate_cubic_spline fit x y ds bc_type = Inl err"
    by (auto dest: generate_cubic_spline_Inl)
next
  assume a: "ds < 0 \<and> length x = length y \<and> 2 \<le> length x \<and> distinct_adj (zip x y)
        \<and> bc_type \<in> {''natural'', ''clamped'', ''not-a-knot''}"
  then have ds: "ds \<noteq> 0" by simp
  from a have "nat \<lceil>chord_length x y / ds\<rceil> = 0"
    using chord_length_nonneg[of x y] by (simp add: divide_nonneg_neg ceiling_le_zero)
  with initialise_cubic_spline_ok[of x y bc_type ds fit] a ds
  have "initialise_cubic_spline fit x y ds bc_type =
     Inr (fit ([0] @ np_cumsum (np_hypot (np_ediff1d x) (np_ediff1d y))) (zip x y) bc_type, [])"
    by simp
  then show "generate_cubic_spline fit x y ds bc_type = Inr ([], [], [], [])"
    unfolding generate_cubic_spline_def by (simp add: Let_def)
qed

text \<open>
  The statement for a zero interval, for a single waypoint, and for the interval
  \<open>-0.05\<close>.
\<close>

theorem malformed_configuration_witness:
  "(\<exists>err. generate_cubic_spline line_fit [0, 3] [0, 4] 0 ''natural'' = Inl err)
   \<and> (\<exists>err. generate_cubic_spline line_fit [7] [7] 0.05 ''natural'' = Inl err)
   \<and> generate_cubic_spline line_fit [0, 3] [0, 4] (- 0.05) ''natural'' = Inr ([], [], [], [])"
proof -
  note a = malformed_configuration[of 0 "[0, 3]" "[0, 4]" line_fit "''natural''", THEN conjunct1]
  note b = malformed_configuration[of "0.05" "[7]" "[7]" line_fit "''natural''", THEN conjunct1]
  note c = malformed_configuration[of "- 0.05" "[0, 3]" "[0, 4]" line_fit "''natural''", THEN conjunct2]
  from a have "\<exists>err. generate_cubic_spline line_fit [0, 3] [0, 4] 0 ''natural'' = Inl err" by simp
  moreover from b have "\<exists>err. generate_cubic_spline line_fit [7] [7] 0.05 ''natural'' = Inl err" by simp
  moreover from c have "generate_cubic_spline line_fit [0, 3] [0, 4] (- 0.05) ''natural'' = Inr ([], [], [], [])"
    by simp
  ultimately show ?thesis by blast
qed

end
